theory Spec2Isabelle
  imports Complex_Main
begin

section \<open>The job queue of \<^verbatim>\<open>backend/worker.py\<close>\<close>

text \<open>
  Python values are modelled as follows. A \<^verbatim>\<open>str\<close> is a \<open>string\<close>. A \<^verbatim>\<open>float\<close> is a
  \<open>real\<close>: the job queue only stores, compares and returns progress values and time stamps,
  it performs no rounding arithmetic on them. A raised exception is a value of \<open>exn\<close>
  carrying \<^verbatim>\<open>str(e)\<close>; the constructor tells whether a handler \<^verbatim>\<open>except Exception\<close>
  catches it (\<open>Exception\<close>) or not (\<open>BaseException\<close>: \<^verbatim>\<open>SystemExit\<close>, \<^verbatim>\<open>KeyboardInterrupt\<close>,
  \<^verbatim>\<open>GeneratorExit\<close>). A method that mutates the queue takes the queue and returns the new one,
  together with the value it returns or the exception it raises (\<open>Inl\<close>).
\<close>

datatype exn = Exception string | BaseException string

type_synonym job_id = string

text \<open>
  A \<^verbatim>\<open>concurrent.futures.Future\<close> is either not done or done with the outcome of the
  callable: it returned, or it raised. \<^verbatim>\<open>Future.done()\<close> is \<open>f \<noteq> None\<close>;
  \<^verbatim>\<open>Future.result()\<close> on a done future returns or re-raises.
\<close>

datatype outcome = Returned | Raised exn

text \<open>The dictionary \<^verbatim>\<open>get_job_status\<close> returns, and the job record that extends it.\<close>

record status_dict =
  status :: string
  progress :: real
  message :: string

record job = status_dict +
  created_at :: real
  future :: "nat option"

text \<open>
  The queue object: the table \<^verbatim>\<open>self.jobs\<close>, and the executor. The executor is the store of
  the futures it has handed out (a job record refers to its future by a handle, the worker
  thread completes the future behind the table's back), the next fresh handle, and whether
  \<^verbatim>\<open>shutdown\<close> was called.
\<close>

record job_queue =
  jobs :: "job_id \<rightharpoonup> job"
  futures :: "nat \<Rightarrow> outcome option"
  next_future :: nat
  is_shutdown :: bool

text \<open>\<^verbatim>\<open>JobQueue.__init__\<close>\<close>

definition new_queue :: job_queue where
  "new_queue = \<lparr>jobs = Map.empty, futures = (\<lambda>_. None), next_future = 0, is_shutdown = False\<rparr>"

text \<open>
  \<^verbatim>\<open>ThreadPoolExecutor.submit\<close>: raises \<^verbatim>\<open>RuntimeError\<close> once the executor is shut down,
  otherwise hands out a new future that is not done.
\<close>

definition submit :: "job_queue \<Rightarrow> exn + (nat \<times> job_queue)" where
  "submit q =
     (if is_shutdown q then Inl (Exception ''cannot schedule new futures after shutdown'')
      else Inr (next_future q,
                q\<lparr>futures := (futures q)(next_future q := None),
                  next_future := Suc (next_future q)\<rparr>))"

text \<open>
  \<^verbatim>\<open>enqueue_job\<close>, in its three parts: the first locked block stores the fresh record, the
  task is submitted, the second locked block stores the future and sets the status to
  running. \<open>now\<close> is the value of \<^verbatim>\<open>datetime.utcnow()\<close>.
\<close>

definition register_job :: "real \<Rightarrow> job_id \<Rightarrow> job_queue \<Rightarrow> job_queue" where
  "register_job now job_id q =
     q\<lparr>jobs := (jobs q)(job_id \<mapsto>
        \<lparr>status = ''queued'', progress = 0, message = ''Job queued'',
         created_at = now, future = None\<rparr>)\<rparr>"

definition attach_future :: "job_id \<Rightarrow> nat \<Rightarrow> job_queue \<Rightarrow> exn + job_queue" where
  "attach_future job_id h q =
     (case jobs q job_id of
        None \<Rightarrow> Inl (Exception (CHR 0x27 # job_id @ [CHR 0x27]))
      | Some j \<Rightarrow> Inr (q\<lparr>jobs := (jobs q)(job_id \<mapsto> j\<lparr>future := Some h, status := ''running''\<rparr>)\<rparr>))"

definition enqueue_job :: "real \<Rightarrow> job_id \<Rightarrow> job_queue \<Rightarrow> (exn + unit) \<times> job_queue" where
  "enqueue_job now job_id q =
     (let q1 = register_job now job_id q in
      case submit q1 of
        Inl e \<Rightarrow> (Inl e, q1)
      | Inr (h, q2) \<Rightarrow>
          (case attach_future job_id h q2 of
             Inl e \<Rightarrow> (Inl e, q2)
           | Inr q3 \<Rightarrow> (Inr (), q3)))"

text \<open>
  \<^verbatim>\<open>get_job_status\<close>. \<open>reply\<close> is the dictionary built from the record at the end;
  \<open>resolve\<close> is the body of the test \<^verbatim>\<open>if job['status'] not in ['completed', 'failed']\<close> for a
  done future, with the \<^verbatim>\<open>try\<close> and its handler.
\<close>

definition not_found_reply :: status_dict where
  "not_found_reply = \<lparr>status = ''not_found'', progress = 0, message = ''Job not found''\<rparr>"

definition reply :: "job \<Rightarrow> status_dict" where
  "reply j = \<lparr>status = status j, progress = progress j, message = message j\<rparr>"

definition resolve :: "outcome \<Rightarrow> job \<Rightarrow> exn + job" where
  "resolve out j =
     (case out of
        Returned \<Rightarrow>
          (if status j \<noteq> ''failed''
           then Inr (j\<lparr>status := ''completed'', progress := 1, message := ''Job completed''\<rparr>)
           else Inr j)
      | Raised (Exception e) \<Rightarrow>
          Inr (j\<lparr>status := ''failed'', progress := 0, message := ''Job failed: '' @ e\<rparr>)
      | Raised (BaseException e) \<Rightarrow> Inl (BaseException e))"

definition get_job_status :: "job_id \<Rightarrow> job_queue \<Rightarrow> (exn + status_dict) \<times> job_queue" where
  "get_job_status job_id q =
     (case jobs q job_id of
        None \<Rightarrow> (Inr not_found_reply, q)
      | Some j \<Rightarrow>
          (case future j of
             None \<Rightarrow> (Inr (reply j), q)
           | Some h \<Rightarrow>
               (case futures q h of
                  None \<Rightarrow> (Inr (reply j), q)
                | Some out \<Rightarrow>
                    (if status j \<notin> {''completed'', ''failed''}
                     then (case resolve out j of
                             Inl e \<Rightarrow> (Inl e, q)
                           | Inr j' \<Rightarrow> (Inr (reply j'), q\<lparr>jobs := (jobs q)(job_id \<mapsto> j')\<rparr>))
                     else (Inr (reply j), q)))))"

text \<open>\<^verbatim>\<open>update_job_status\<close>\<close>

definition update_job_status ::
  "job_id \<Rightarrow> string \<Rightarrow> real \<Rightarrow> string \<Rightarrow> job_queue \<Rightarrow> job_queue" where
  "update_job_status job_id st p m q =
     (case jobs q job_id of
        None \<Rightarrow> q
      | Some j \<Rightarrow> q\<lparr>jobs := (jobs q)(job_id \<mapsto> j\<lparr>status := st, progress := p, message := m\<rparr>)\<rparr>)"

text \<open>
  \<^verbatim>\<open>cleanup_completed_jobs\<close>: the first loop collects the terminal records older than the
  cutoff, the second deletes them. \<open>now\<close> is \<^verbatim>\<open>datetime.utcnow().timestamp()\<close>, and
  \<open>created_at\<close> holds the time stamp of the record's creation time.
\<close>

definition cleanup_completed_jobs :: "int \<Rightarrow> real \<Rightarrow> job_queue \<Rightarrow> job_queue" where
  "cleanup_completed_jobs max_age_hours now q =
     (let cutoff_time = now - real_of_int (max_age_hours * 3600) in
      q\<lparr>jobs := (\<lambda>job_id.
           case jobs q job_id of
             None \<Rightarrow> None
           | Some j \<Rightarrow>
               (if status j \<in> {''completed'', ''failed''} \<and> created_at j < cutoff_time
                then None else Some j))\<rparr>)"

text \<open>\<^verbatim>\<open>shutdown\<close>: from then on the executor refuses submissions.\<close>

definition shutdown :: "job_queue \<Rightarrow> job_queue" where
  "shutdown q = q\<lparr>is_shutdown := True\<rparr>"

text \<open>
  The worker thread finishing the callable of future \<open>h\<close>: a future that is not done becomes
  done with the outcome; a done future stays as it is.
\<close>

definition finish :: "nat \<Rightarrow> outcome \<Rightarrow> job_queue \<Rightarrow> job_queue" where
  "finish h out q =
     (case futures q h of
        None \<Rightarrow> q\<lparr>futures := (futures q)(h := Some out)\<rparr>
      | Some _ \<Rightarrow> q)"

text \<open>
  A history of the queue: the locked blocks of its methods, called by the API and by the
  running tasks, the submissions to the executor and the completions of futures, in the
  order in which they happen. A call of \<^verbatim>\<open>enqueue_job\<close> contributes three steps: its first
  locked block, the submission, and its second locked block with the future that the
  submission returned. Steps of other threads, among them those of the submitted task
  itself, can come between them. A step that raises leaves the queue as it was at the
  raise.
\<close>

datatype op =
    Register real job_id
  | Submit
  | Attach job_id nat
  | GetStatus job_id
  | UpdateStatus job_id string real string
  | Cleanup int real
  | Shutdown
  | Finish nat outcome

fun step :: "op \<Rightarrow> job_queue \<Rightarrow> job_queue" where
  "step (Register now job_id) q = register_job now job_id q"
| "step Submit q = (case submit q of Inl e \<Rightarrow> q | Inr (h, q') \<Rightarrow> q')"
| "step (Attach job_id h) q = (case attach_future job_id h q of Inl e \<Rightarrow> q | Inr q' \<Rightarrow> q')"
| "step (GetStatus job_id) q = snd (get_job_status job_id q)"
| "step (UpdateStatus job_id st p m) q = update_job_status job_id st p m q"
| "step (Cleanup max_age_hours now) q = cleanup_completed_jobs max_age_hours now q"
| "step Shutdown q = shutdown q"
| "step (Finish h out) q = finish h out q"

fun run :: "op list \<Rightarrow> job_queue \<Rightarrow> job_queue" where
  "run [] q = q"
| "run (x # xs) q = run xs (step x q)"

section \<open>The engine of \<^verbatim>\<open>backend/engine.py\<close>\<close>

text \<open>
  A trained model is what its \<^verbatim>\<open>predict\<close> does on a frame of one row with the four feature
  columns (O/F ratio, chamber pressure, combustion temperature, specific impulse): it returns
  the prediction \<^verbatim>\<open>[0]\<close> or raises. Float arithmetic is written over the reals: rounding and
  the infinities of a division by zero are not modelled, and nothing below depends on the
  value of a quotient.
\<close>

type_synonym model = "real \<Rightarrow> real \<Rightarrow> real \<Rightarrow> real \<Rightarrow> exn + real"

record sim_params =
  O_F_ratio :: real
  pressure :: real
  temp :: real
  isp :: real

record simulation_result =
  thrust :: real
  efficiency :: real
  temperature_ratio :: real
  params :: sim_params

definition simulate :: "sim_params \<Rightarrow> model \<Rightarrow> exn + simulation_result" where
  "simulate ps model =
     (case model (O_F_ratio ps) (pressure ps) (temp ps) (isp ps) of
        Inl e \<Rightarrow> Inl e
      | Inr predicted_thrust \<Rightarrow>
          Inr \<lparr>thrust = predicted_thrust,
               efficiency = predicted_thrust / (pressure ps * isp ps),
               temperature_ratio = temp ps / 3000,
               params = ps\<rparr>)"

text \<open>
  What \<^verbatim>\<open>optimize_fuel_mixture\<close> hands to \<^verbatim>\<open>scipy.optimize.minimize\<close>: the objective, the
  initial guess, the bounds and the inequality constraints (each a function that is to be
  non-negative), and the fields of the \<^verbatim>\<open>OptimizeResult\<close> it reads.
\<close>

record problem =
  objective_fn :: "real list \<Rightarrow> exn + real"
  initial_guess :: "real list"
  bounds :: "(real \<times> real) list"
  constraints :: "(real list \<Rightarrow> exn + real) list"

record optimize_result =
  opt_success :: bool
  opt_x :: "real list"
  opt_fun :: real
  opt_message :: string

text \<open>
  The minimizer is a parameter: \<open>minimize n p\<close> is what the \<open>n\<close>-th call of
  \<^verbatim>\<open>minimize\<close> answers on problem \<open>p\<close> (a result, or an exception that escaped from the
  objective). The number of calls made so far is threaded through, so that calling the
  solver again would show.
\<close>

type_synonym minimizer = "nat \<Rightarrow> problem \<Rightarrow> exn + optimize_result"

text \<open>The closure \<^verbatim>\<open>objective\<close>: unpacks three values, predicts at impulse 300.\<close>

definition objective :: "model \<Rightarrow> real \<Rightarrow> real list \<Rightarrow> exn + real" where
  "objective model alpha xs =
     (case xs of
        [O_F, p, T] \<Rightarrow>
          (case model O_F p T 300 of
             Inl e \<Rightarrow> Inl e
           | Inr pred_thrust \<Rightarrow> Inr (alpha * (- pred_thrust) + (1 - alpha) * T))
      | _ \<Rightarrow> Inl (Exception ''wrong number of values to unpack''))"

text \<open>The constraint \<^verbatim>\<open>lambda x: max_temp - x[2]\<close>.\<close>

definition temp_constraint :: "real \<Rightarrow> real list \<Rightarrow> exn + real" where
  "temp_constraint max_temp xs =
     (if 2 < length xs then Inr (max_temp - xs ! 2)
      else Inl (Exception ''index 2 is out of bounds''))"

definition fuel_problem :: "model \<Rightarrow> real \<Rightarrow> real \<Rightarrow> problem" where
  "fuel_problem model alpha max_temp =
     \<lparr>objective_fn = objective model alpha,
      initial_guess = [3.5, 5.0, 3000.0],
      bounds = [(2, 6), (1, 10), (2500, 5000)],
      constraints = [temp_constraint max_temp]\<rparr>"

text \<open>
  The dictionary \<^verbatim>\<open>optimize_fuel_mixture\<close> returns; a key that is absent is \<open>None\<close>.
\<close>

record optimization =
  success :: bool
  optimal_params :: "sim_params option"
  predicted_thrust :: "real option"
  optimization_value :: "real option"
  error :: "string option"

definition optimize_fuel_mixture ::
  "minimizer \<Rightarrow> model \<Rightarrow> real \<Rightarrow> real \<Rightarrow> nat \<Rightarrow> (exn + optimization) \<times> nat" where
  "optimize_fuel_mixture minimize model alpha max_temp calls =
     (case minimize calls (fuel_problem model alpha max_temp) of
        Inl e \<Rightarrow> (Inl e, Suc calls)
      | Inr result \<Rightarrow>
          (if opt_success result
           then (case opt_x result of
                   x0 # x1 # x2 # _ \<Rightarrow>
                     (let ps = \<lparr>O_F_ratio = x0, pressure = x1, temp = x2, isp = 300.0\<rparr> in
                      case simulate ps model of
                        Inl e \<Rightarrow> (Inl e, Suc calls)
                      | Inr simulation_result \<Rightarrow>
                          (Inr \<lparr>success = True,
                                optimal_params = Some ps,
                                predicted_thrust = Some (thrust simulation_result),
                                optimization_value = Some (opt_fun result),
                                error = None\<rparr>,
                           Suc calls))
                 | _ \<Rightarrow> (Inl (Exception ''index is out of bounds''), Suc calls))
           else (Inr \<lparr>success = False,
                      optimal_params = None,
                      predicted_thrust = None,
                      optimization_value = None,
                      error = Some (opt_message result)\<rparr>,
                 Suc calls)))"

text \<open>
  A point is feasible for a problem when it lies within the bounds and makes every
  inequality constraint non-negative.
\<close>

definition within_bounds :: "(real \<times> real) list \<Rightarrow> real list \<Rightarrow> bool" where
  "within_bounds bs xs = list_all2 (\<lambda>(lo, hi) v. lo \<le> v \<and> v \<le> hi) bs xs"

definition satisfies :: "real list \<Rightarrow> (real list \<Rightarrow> exn + real) \<Rightarrow> bool" where
  "satisfies xs c = (case c xs of Inl e \<Rightarrow> False | Inr v \<Rightarrow> 0 \<le> v)"

definition feasible :: "problem \<Rightarrow> real list \<Rightarrow> bool" where
  "feasible p xs = (within_bounds (bounds p) xs \<and> list_all (satisfies xs) (constraints p))"

section \<open>The API of \<^verbatim>\<open>backend/api.py\<close>\<close>

subsection \<open>Request validation\<close>

text \<open>
  The model \<^verbatim>\<open>ExperimentParams\<close>. A field of the request body is missing, \<^verbatim>\<open>null\<close>, a value
  that is not of the field's type, or a value. A required field accepts only a value within
  its \<^verbatim>\<open>ge\<close> and \<^verbatim>\<open>le\<close>; an optional field takes its default when missing, accepts \<^verbatim>\<open>null\<close>,
  and checks \<^verbatim>\<open>ge\<close> and \<^verbatim>\<open>le\<close> (where declared) on a value. \<open>None\<close> is a validation
  error of the field.
\<close>

datatype 'a field = Missing | Null | Malformed | Value 'a

record request_body =
  body_O_F_ratio :: "real field"
  body_pressure :: "real field"
  body_temp :: "real field"
  body_isp :: "real field"
  body_alpha :: "real field"
  body_max_temp :: "real field"
  body_tune_model :: "bool field"

record ExperimentParams = sim_params +
  alpha :: "real option"
  max_temp :: "real option"
  tune_model :: "bool option"

definition in_range :: "real option \<Rightarrow> real option \<Rightarrow> real \<Rightarrow> bool" where
  "in_range ge le v =
     ((case ge of None \<Rightarrow> True | Some lo \<Rightarrow> lo \<le> v) \<and>
      (case le of None \<Rightarrow> True | Some hi \<Rightarrow> v \<le> hi))"

definition required_float :: "real option \<Rightarrow> real option \<Rightarrow> real field \<Rightarrow> real option" where
  "required_float ge le f =
     (case f of Value v \<Rightarrow> (if in_range ge le v then Some v else None) | _ \<Rightarrow> None)"

definition optional_float ::
  "real \<Rightarrow> real option \<Rightarrow> real option \<Rightarrow> real field \<Rightarrow> real option option" where
  "optional_float dflt ge le f =
     (case f of
        Missing \<Rightarrow> Some (Some dflt)
      | Null \<Rightarrow> Some None
      | Malformed \<Rightarrow> None
      | Value v \<Rightarrow> (if in_range ge le v then Some (Some v) else None))"

definition optional_bool :: "bool \<Rightarrow> bool field \<Rightarrow> bool option option" where
  "optional_bool dflt f =
     (case f of
        Missing \<Rightarrow> Some (Some dflt)
      | Null \<Rightarrow> Some None
      | Malformed \<Rightarrow> None
      | Value b \<Rightarrow> Some (Some b))"

definition validate :: "request_body \<Rightarrow> ExperimentParams option" where
  "validate body =
     (case (required_float (Some 2.0) (Some 6.0) (body_O_F_ratio body),
            required_float (Some 1.0) (Some 10.0) (body_pressure body),
            required_float (Some 2500.0) (Some 5000.0) (body_temp body),
            required_float (Some 200.0) (Some 450.0) (body_isp body),
            optional_float 0.5 (Some 0.0) (Some 1.0) (body_alpha body),
            optional_float 4000.0 None None (body_max_temp body),
            optional_bool False (body_tune_model body)) of
        (Some r, Some p, Some t, Some i, Some a, Some mt, Some tm) \<Rightarrow>
          Some \<lparr>O_F_ratio = r, pressure = p, temp = t, isp = i,
                alpha = a, max_temp = mt, tune_model = tm\<rparr>
      | _ \<Rightarrow> None)"

subsection \<open>The database\<close>

text \<open>
  The two tables of \<^verbatim>\<open>backend/database.py\<close>, keyed by their primary keys, and a session
  (\<^verbatim>\<open>autoflush=False\<close>): the rows added and the status written to a loaded experiment stay in
  the session until \<^verbatim>\<open>commit\<close>, and a session that is dropped without a commit writes
  nothing. A commit that would insert a primary key twice raises and writes nothing. The
  model keeps a session usable after a failed commit.
\<close>

record metrics =
  mae :: real
  r2 :: real
  train_size :: nat
  test_size :: nat

record results_data =
  simulation :: simulation_result
  optimization :: "optimization option"
  model_metrics :: metrics

record Experiment =
  experiment_params :: ExperimentParams
  experiment_status :: string
  experiment_created_at :: real

record Result =
  result_status :: string
  data :: "results_data option"
  error_message :: "string option"
  completed_at :: "real option"

record database =
  experiments :: "job_id \<rightharpoonup> Experiment"
  results :: "job_id \<rightharpoonup> Result"

record session =
  new_experiments :: "(job_id \<times> Experiment) list"
  new_results :: "(job_id \<times> Result) list"
  status_writes :: "(job_id \<times> string) list"

definition new_session :: session where
  "new_session = \<lparr>new_experiments = [], new_results = [], status_writes = []\<rparr>"

definition conflicts :: "(job_id \<times> 'a) list \<Rightarrow> (job_id \<rightharpoonup> 'a) \<Rightarrow> bool" where
  "conflicts rows table =
     (\<not> distinct (map fst rows) \<or> list_ex (\<lambda>(k, v). table k \<noteq> None) rows)"

definition insert_rows :: "(job_id \<times> 'a) list \<Rightarrow> (job_id \<rightharpoonup> 'a) \<Rightarrow> (job_id \<rightharpoonup> 'a)" where
  "insert_rows rows table = fold (\<lambda>(k, v) t. t(k \<mapsto> v)) rows table"

definition write_status ::
  "(job_id \<times> string) list \<Rightarrow> (job_id \<rightharpoonup> Experiment) \<Rightarrow> (job_id \<rightharpoonup> Experiment)" where
  "write_status ws table =
     fold (\<lambda>(k, st) t. case t k of None \<Rightarrow> t
                                | Some e \<Rightarrow> t(k \<mapsto> e\<lparr>experiment_status := st\<rparr>)) ws table"

definition commit :: "session \<Rightarrow> database \<Rightarrow> exn + database" where
  "commit s d =
     (if conflicts (new_experiments s) (experiments d) \<or> conflicts (new_results s) (results d)
      then Inl (Exception ''IntegrityError'')
      else Inr \<lparr>experiments =
                  write_status (status_writes s) (insert_rows (new_experiments s) (experiments d)),
                results = insert_rows (new_results s) (results d)\<rparr>)"

subsection \<open>The process state and the endpoints\<close>

text \<open>
  The globals of the module: the job queue, the database, the model cache (its entry
  \<^verbatim>\<open>'default'\<close>), and the number of calls made to the minimizer. The environment holds what
  the repository does not define: the outcome of training on the generated data, and the
  minimizer.
\<close>

record world =
  job_queue :: job_queue
  db :: database
  model_cache :: "(model \<times> metrics) option"
  solver_calls :: nat

record environment =
  train :: "exn + (model \<times> metrics)"
  minimize :: minimizer

definition get_or_train_model ::
  "environment \<Rightarrow> (model \<times> metrics) option \<Rightarrow> (exn + model) \<times> (model \<times> metrics) option" where
  "get_or_train_model env cache =
     (case cache of
        None \<Rightarrow>
          (case train env of
             Inl e \<Rightarrow> (Inl e, None)
           | Inr (m, ms) \<Rightarrow> (Inr m, Some (m, ms)))
      | Some (m, ms) \<Rightarrow> (Inr m, cache))"

record JobResponse =
  response_job_id :: job_id
  response_status :: string
  response_message :: string

text \<open>
  \<^verbatim>\<open>run_experiment\<close>, the handler of \<^verbatim>\<open>POST /run\<close>, on validated parameters. \<open>job_id\<close> is the
  value of \<^verbatim>\<open>uuid.uuid4()\<close>, \<open>t_exp\<close> and \<open>t_job\<close> are the clock readings for the experiment
  row and for the job record. The task itself runs later, on a worker
  (\<open>run_experiment_task\<close> below).
\<close>

definition run_experiment ::
  "ExperimentParams \<Rightarrow> job_id \<Rightarrow> real \<Rightarrow> real \<Rightarrow> world \<Rightarrow> (exn + JobResponse) \<times> world" where
  "run_experiment ps job_id t_exp t_job w =
     (let s = new_session\<lparr>new_experiments :=
                [(job_id, \<lparr>experiment_params = ps, experiment_status = ''queued'',
                           experiment_created_at = t_exp\<rparr>)]\<rparr> in
      case commit s (db w) of
        Inl e \<Rightarrow> (Inl e, w)
      | Inr d \<Rightarrow>
          (case enqueue_job t_job job_id (job_queue w) of
             (Inl e, q) \<Rightarrow> (Inl e, w\<lparr>db := d, job_queue := q\<rparr>)
           | (Inr u, q) \<Rightarrow>
               (Inr \<lparr>response_job_id = job_id, response_status = ''queued'',
                     response_message = ''Experiment queued successfully''\<rparr>,
                w\<lparr>db := d, job_queue := q\<rparr>)))"

text \<open>
  The route \<^verbatim>\<open>POST /run\<close>: the framework validates the body against \<^verbatim>\<open>ExperimentParams\<close>
  and answers 422 without calling the handler when validation fails; an exception that
  escapes the handler is a 500.
\<close>

datatype http_response = Ok_200 JobResponse | Unprocessable_422 | Server_error_500 exn

definition post_run ::
  "request_body \<Rightarrow> job_id \<Rightarrow> real \<Rightarrow> real \<Rightarrow> world \<Rightarrow> http_response \<times> world" where
  "post_run body job_id t_exp t_job w =
     (case validate body of
        None \<Rightarrow> (Unprocessable_422, w)
      | Some ps \<Rightarrow>
          (case run_experiment ps job_id t_exp t_job w of
             (Inl e, w') \<Rightarrow> (Server_error_500 e, w')
           | (Inr r, w') \<Rightarrow> (Ok_200 r, w')))"

subsection \<open>The background task\<close>

text \<open>The text of the \<^verbatim>\<open>AttributeError\<close> of \<^verbatim>\<open>experiment.status = ...\<close> on \<^verbatim>\<open>None\<close>.\<close>

definition none_status_error :: string where
  "none_status_error =
     CHR 0x27 # ''NoneType'' @ CHR 0x27 # '' object has no attribute '' @
     CHR 0x27 # ''status'' @ [CHR 0x27]"

text \<open>
  \<open>set_status\<close> is the call \<^verbatim>\<open>job_queue.update_job_status\<close> on the global queue.
  \<open>requested_optimization\<close> is the statement guarded by
  \<^verbatim>\<open>params.get('alpha') is not None\<close>; with \<^verbatim>\<open>max_temp\<close> null the constraint
  \<^verbatim>\<open>max_temp - x[2]\<close> raises a \<^verbatim>\<open>TypeError\<close> inside the one call of the minimizer (its text
  is abbreviated here).
\<close>

definition set_status :: "job_id \<Rightarrow> string \<Rightarrow> real \<Rightarrow> string \<Rightarrow> world \<Rightarrow> world" where
  "set_status job_id st p m w = w\<lparr>job_queue := update_job_status job_id st p m (job_queue w)\<rparr>"

definition requested_optimization ::
  "environment \<Rightarrow> ExperimentParams \<Rightarrow> model \<Rightarrow> nat \<Rightarrow> (exn + optimization option) \<times> nat" where
  "requested_optimization env ps model calls =
     (case alpha ps of
        None \<Rightarrow> (Inr None, calls)
      | Some a \<Rightarrow>
          (case max_temp ps of
             None \<Rightarrow> (Inl (Exception ''unsupported operand type(s) for -''), Suc calls)
           | Some mt \<Rightarrow>
               (case optimize_fuel_mixture (minimize env) model a mt calls of
                  (Inl e, n) \<Rightarrow> (Inl e, n)
                | (Inr r, n) \<Rightarrow> (Inr (Some r), n))))"

text \<open>
  The \<^verbatim>\<open>try\<close> block of \<^verbatim>\<open>_run_experiment_task\<close>: it returns, or raises at some statement;
  either way the session and the globals are as the statements run so far left them.
  \<open>t_done\<close> is the clock reading for \<^verbatim>\<open>completed_at\<close>.
\<close>

definition task_body ::
  "environment \<Rightarrow> job_id \<Rightarrow> ExperimentParams \<Rightarrow> real \<Rightarrow> world \<Rightarrow> (exn + unit) \<times> session \<times> world" where
  "task_body env job_id ps t_done w0 =
     (let w1 = set_status job_id ''running'' 0.1 ''Starting experiment'' w0 in
      case get_or_train_model env (model_cache w1) of
        (Inl e, c) \<Rightarrow> (Inl e, new_session, w1\<lparr>model_cache := c\<rparr>)
      | (Inr model, c) \<Rightarrow>
     (let w2 = set_status job_id ''running'' 0.3 ''Model loaded'' (w1\<lparr>model_cache := c\<rparr>) in
      case simulate \<lparr>O_F_ratio = O_F_ratio ps, pressure = pressure ps,
                     temp = temp ps, isp = isp ps\<rparr> model of
        Inl e \<Rightarrow> (Inl e, new_session, w2)
      | Inr simulation_result \<Rightarrow>
     (let w3 = set_status job_id ''running'' 0.6 ''Simulation completed'' w2 in
      case requested_optimization env ps model (solver_calls w3) of
        (Inl e, n) \<Rightarrow> (Inl e, new_session, w3\<lparr>solver_calls := n\<rparr>)
      | (Inr optimization_result, n) \<Rightarrow>
     (let w4 = set_status job_id ''running'' 0.9 ''Optimization completed''
                 (w3\<lparr>solver_calls := n\<rparr>) in
      case model_cache w4 of
        None \<Rightarrow> (Inl (Exception ''KeyError: default''), new_session, w4)
      | Some (m, ms) \<Rightarrow>
     (let s1 = new_session\<lparr>new_results :=
                 [(job_id, \<lparr>result_status = ''completed'',
                            data = Some \<lparr>simulation = simulation_result,
                                         optimization = optimization_result,
                                         model_metrics = ms\<rparr>,
                            error_message = None,
                            completed_at = Some t_done\<rparr>)]\<rparr> in
      case experiments (db w4) job_id of
        None \<Rightarrow> (Inl (Exception none_status_error), s1, w4)
      | Some experiment \<Rightarrow>
     (let s2 = s1\<lparr>status_writes := [(job_id, ''completed'')]\<rparr> in
      case commit s2 (db w4) of
        Inl e \<Rightarrow> (Inl e, s2, w4)
      | Inr d \<Rightarrow>
          (Inr (), new_session,
           set_status job_id ''completed'' 1.0 ''Experiment completed successfully''
             (w4\<lparr>db := d\<rparr>))))))))"

text \<open>
  \<^verbatim>\<open>_run_experiment_task\<close>: the \<^verbatim>\<open>try\<close> block and the handler \<^verbatim>\<open>except Exception\<close>. The value
  is the outcome of the callable, which the executor stores in the future. \<open>t_failed\<close> is
  the clock reading in the handler.
\<close>

definition run_experiment_task ::
  "environment \<Rightarrow> job_id \<Rightarrow> ExperimentParams \<Rightarrow> real \<Rightarrow> real \<Rightarrow> world \<Rightarrow> outcome \<times> world" where
  "run_experiment_task env job_id ps t_done t_failed w0 =
     (case task_body env job_id ps t_done w0 of
        (Inr u, s, w) \<Rightarrow> (Returned, w)
      | (Inl (BaseException e), s, w) \<Rightarrow> (Raised (BaseException e), w)
      | (Inl (Exception error_msg), s, w) \<Rightarrow>
          (let s1 = s\<lparr>new_results := new_results s @
                      [(job_id, \<lparr>result_status = ''failed'',
                                 data = None,
                                 error_message = Some error_msg,
                                 completed_at = Some t_failed\<rparr>)]\<rparr> in
           case experiments (db w) job_id of
             None \<Rightarrow> (Raised (Exception none_status_error), w)
           | Some experiment \<Rightarrow>
               (let s2 = s1\<lparr>status_writes := status_writes s1 @ [(job_id, ''failed'')]\<rparr> in
                case commit s2 (db w) of
                  Inl e \<Rightarrow> (Raised e, w)
                | Inr d \<Rightarrow>
                    (Returned,
                     set_status job_id ''failed'' 0.0 (''Experiment failed: '' @ error_msg)
                       (w\<lparr>db := d\<rparr>)))))"

section \<open>Conditions on histories\<close>

text \<open>
  \<open>keeps i j x\<close>: the step \<open>x\<close> does not write to the record \<open>j\<close> stored under \<open>i\<close>
  other than with the status it has: it is not a locked block of an enqueue of \<open>i\<close>, not
  an update of \<open>i\<close> with another status, and not a cleanup whose cutoff lies after the
  record's creation.
\<close>

fun keeps :: "job_id \<Rightarrow> job \<Rightarrow> op \<Rightarrow> bool" where
  "keeps i j (Register now k) = (k \<noteq> i)"
| "keeps i j Submit = True"
| "keeps i j (Attach k h) = (k \<noteq> i)"
| "keeps i j (GetStatus k) = True"
| "keeps i j (UpdateStatus k st p m) = (k \<noteq> i \<or> st = status j)"
| "keeps i j (Cleanup max_age_hours now) =
     (\<not> created_at j < now - real_of_int (max_age_hours * 3600))"
| "keeps i j Shutdown = True"
| "keeps i j (Finish h out) = True"

text \<open>\<open>registers i x\<close>: the step is the first block of an enqueue of the identifier \<open>i\<close>.\<close>

fun registers :: "job_id \<Rightarrow> op \<Rightarrow> bool" where
  "registers i (Register now k) = (k = i)"
| "registers i x = False"

text \<open>
  \<open>task_update x\<close>: if the step is an update, its status is one of those that the calls
  of \<^verbatim>\<open>update_job_status\<close> in \<^verbatim>\<open>_run_experiment_task\<close>, the only ones of the repository,
  pass: \<^verbatim>\<open>running\<close>, \<^verbatim>\<open>completed\<close>, \<^verbatim>\<open>failed\<close>.
\<close>

fun task_update :: "op \<Rightarrow> bool" where
  "task_update (UpdateStatus k st p m) =
     (st = ''running'' \<or> st = ''completed'' \<or> st = ''failed'')"
| "task_update x = True"

text \<open>
  \<open>cleanup_keeps i xs q\<close>: no cleanup of the history \<open>xs\<close>, run from \<open>q\<close>, removes the
  record of \<open>i\<close>: after each cleanup step the identifier is in the table.
\<close>

fun cleanup_keeps :: "job_id \<Rightarrow> op list \<Rightarrow> job_queue \<Rightarrow> bool" where
  "cleanup_keeps i [] q = True"
| "cleanup_keeps i (Cleanup max_age_hours now # xs) q =
     (jobs (cleanup_completed_jobs max_age_hours now q) i \<noteq> None \<and>
      cleanup_keeps i xs (cleanup_completed_jobs max_age_hours now q))"
| "cleanup_keeps i (x # xs) q = cleanup_keeps i xs (step x q)"

definition terminal_as :: "job_id \<Rightarrow> job \<Rightarrow> job_queue \<Rightarrow> bool" where
  "terminal_as i j q =
     (case jobs q i of
        None \<Rightarrow> False
      | Some j' \<Rightarrow> status j' = status j \<and> created_at j' = created_at j)"

definition known :: "job_id \<Rightarrow> job_queue \<Rightarrow> bool" where
  "known i q = (case jobs q i of None \<Rightarrow> False | Some j \<Rightarrow> status j \<noteq> ''not_found'')"

section \<open>Inputs for the examples\<close>

text \<open>
  \<open>out_of_bounds lo hi f\<close>: the field carries a value outside \<open>[lo, hi]\<close>.
\<close>

definition out_of_bounds :: "real \<Rightarrow> real \<Rightarrow> real field \<Rightarrow> bool" where
  "out_of_bounds lo hi f = (case f of Value v \<Rightarrow> v < lo \<or> hi < v | _ \<Rightarrow> False)"

text \<open>
  The process at start: an empty queue, empty tables, an empty model cache. A model that
  predicts the thrust of the generated data (impulse times pressure times 0.981), and one
  whose \<^verbatim>\<open>predict\<close> raises at impulse 300, the impulse of the optimizer, only.
\<close>

definition initial_world :: world where
  "initial_world =
     \<lparr>job_queue = new_queue,
      db = \<lparr>experiments = Map.empty, results = Map.empty\<rparr>,
      model_cache = None,
      solver_calls = 0\<rparr>"

definition thrust_model :: model where
  "thrust_model O_F p T i = Inr (i * p * 0.981)"

definition brittle_model :: model where
  "brittle_model O_F p T i =
     (if i = 300 then Inl (Exception ''inference error'') else Inr (i * p * 0.981))"

definition example_metrics :: metrics where
  "example_metrics = \<lparr>mae = 1.5, r2 = 0.99, train_size = 400, test_size = 100\<rparr>"

text \<open>
  Three minimizers: one that evaluates the objective at the initial guess and reports that
  point, with the success flag when it is feasible; one that meets the inequality
  constraints up to a tolerance only, and reports with the success flag a point whose
  temperature 2500.0000000114 exceeds a maximum temperature of 2500; and one that does not
  converge on its first call and would converge on any later call.
\<close>

definition guess_minimizer :: minimizer where
  "guess_minimizer n p =
     (case objective_fn p (initial_guess p) of
        Inl e \<Rightarrow> Inl e
      | Inr v \<Rightarrow>
          Inr \<lparr>opt_success = feasible p (initial_guess p), opt_x = initial_guess p,
               opt_fun = v, opt_message = ''Optimization terminated successfully''\<rparr>)"

definition tolerant_minimizer :: minimizer where
  "tolerant_minimizer n p =
     (case objective_fn p [3.5, 5.0, 2500.0000000114] of
        Inl e \<Rightarrow> Inl e
      | Inr v \<Rightarrow>
          Inr \<lparr>opt_success = True, opt_x = [3.5, 5.0, 2500.0000000114],
               opt_fun = v, opt_message = ''Optimization terminated successfully''\<rparr>)"

definition stubborn_minimizer :: minimizer where
  "stubborn_minimizer n p =
     (if n = 0
      then Inr \<lparr>opt_success = False, opt_x = initial_guess p, opt_fun = 0,
                opt_message = ''Iteration limit reached''\<rparr>
      else Inr \<lparr>opt_success = True, opt_x = initial_guess p, opt_fun = 0,
                opt_message = ''Optimization terminated successfully''\<rparr>)"

definition example_body :: request_body where
  "example_body =
     \<lparr>body_O_F_ratio = Value 3.5, body_pressure = Value 5.0, body_temp = Value 3000.0,
      body_isp = Value 300.0, body_alpha = Missing, body_max_temp = Missing,
      body_tune_model = Missing\<rparr>"

text \<open>
  A validated request with impulse 250, the process after \<^verbatim>\<open>run_experiment\<close> accepted it
  under the identifier \<^verbatim>\<open>id-1\<close>, and two environments: one in which training yields the
  thrust model, one in which it yields the model that raises at impulse 300, so that the
  simulation of the request returns and the optimization raises.
\<close>

definition example_params :: ExperimentParams where
  "example_params =
     \<lparr>O_F_ratio = 3.5, pressure = 5.0, temp = 3000.0, isp = 250.0,
      alpha = Some 0.5, max_temp = Some 4000.0, tune_model = Some False\<rparr>"

definition submitted_world :: world where
  "submitted_world = snd (run_experiment example_params ''id-1'' 0 0 initial_world)"

definition working_env :: environment where
  "working_env = \<lparr>train = Inr (thrust_model, example_metrics), minimize = guess_minimizer\<rparr>"

definition brittle_env :: environment where
  "brittle_env = \<lparr>train = Inr (brittle_model, example_metrics), minimize = guess_minimizer\<rparr>"

section \<open>Properties of the job queue\<close>

lemma enqueue_job_eq:
  "enqueue_job now i q =
     (if is_shutdown q
      then (Inl (Exception ''cannot schedule new futures after shutdown''),
            q\<lparr>jobs := (jobs q)(i \<mapsto>
               \<lparr>status = ''queued'', progress = 0, message = ''Job queued'',
                created_at = now, future = None\<rparr>)\<rparr>)
      else (Inr (),
            q\<lparr>jobs := (jobs q)(i \<mapsto>
               \<lparr>status = ''running'', progress = 0, message = ''Job queued'',
                created_at = now, future = Some (next_future q)\<rparr>),
              futures := (futures q)(next_future q := None),
              next_future := Suc (next_future q)\<rparr>))"
  by (simp add: enqueue_job_def register_job_def submit_def attach_future_def Let_def)

lemmas queue_eval =
  enqueue_job_eq new_queue_def register_job_def submit_def attach_future_def
  update_job_status_def get_job_status_def resolve_def
  reply_def finish_def shutdown_def cleanup_completed_jobs_def not_found_reply_def

text \<open>
  A call of \<^verbatim>\<open>enqueue_job\<close> that no other thread interleaves is the history of its three
  steps.
\<close>

lemma run_enqueue_steps:
  "\<not> is_shutdown q \<Longrightarrow>
     run [Register now i, Submit, Attach i (next_future q)] q = snd (enqueue_job now i q)"
  by (simp add: enqueue_job_eq register_job_def submit_def attach_future_def)

lemma jobs_register_other: "k \<noteq> i \<Longrightarrow> jobs (register_job now k q) i = jobs q i"
  by (simp add: register_job_def)

lemma jobs_submit: "jobs (step Submit q) = jobs q"
  by (simp add: submit_def)

lemma jobs_attach_other: "k \<noteq> i \<Longrightarrow> jobs (step (Attach k h) q) i = jobs q i"
  by (simp add: attach_future_def split: option.splits)

lemma jobs_get_other: "k \<noteq> i \<Longrightarrow> jobs (snd (get_job_status k q)) i = jobs q i"
  by (simp add: get_job_status_def split: option.splits sum.splits)

lemma get_terminal:
  "jobs q i = Some j \<Longrightarrow> status j \<in> {''completed'', ''failed''} \<Longrightarrow>
     get_job_status i q = (Inr (reply j), q)"
  by (auto simp: get_job_status_def split: option.splits)

lemma get_unknown: "jobs q i = None \<Longrightarrow> get_job_status i q = (Inr not_found_reply, q)"
  by (simp add: get_job_status_def)

lemma jobs_update_other: "k \<noteq> i \<Longrightarrow> jobs (update_job_status k st p m q) i = jobs q i"
  by (simp add: update_job_status_def split: option.splits)

lemma jobs_finish: "jobs (finish h out q) = jobs q"
  by (simp add: finish_def split: option.splits)

lemma jobs_shutdown: "jobs (shutdown q) = jobs q"
  by (simp add: shutdown_def)

subsection \<open>Unknown identifiers\<close>

lemma step_unknown:
  assumes "jobs q i = None" "\<not> registers i x"
  shows "jobs (step x q) i = None"
proof (cases x)
  case (Register now k)
  with assms show ?thesis by (simp add: jobs_register_other)
next
  case Submit
  with assms show ?thesis by (simp add: submit_def)
next
  case (Attach k h)
  with assms show ?thesis by (auto simp: attach_future_def split: option.splits)
next
  case (GetStatus k)
  with assms show ?thesis by (cases "k = i") (simp_all add: get_unknown jobs_get_other)
next
  case (UpdateStatus k st p m)
  with assms show ?thesis by (auto simp: update_job_status_def split: option.splits)
next
  case (Cleanup a now)
  with assms show ?thesis by (simp add: cleanup_completed_jobs_def Let_def)
next
  case Shutdown
  with assms show ?thesis by (simp add: jobs_shutdown)
next
  case (Finish h out)
  with assms show ?thesis by (simp add: jobs_finish)
qed

lemma run_unknown:
  "jobs q i = None \<Longrightarrow> \<forall>x \<in> set ops. \<not> registers i x \<Longrightarrow> jobs (run ops q) i = None"
proof (induction ops arbitrary: q)
  case Nil
  then show ?case by simp
next
  case (Cons x xs)
  from Cons.prems have "jobs (step x q) i = None" by (intro step_unknown) auto
  with Cons show ?case by simp
qed

subsection \<open>Known identifiers\<close>

lemma known_register: "known i (register_job now i q)"
  by (simp add: known_def register_job_def)

lemma get_known:
  assumes "known i q"
  shows "known i (snd (get_job_status i q))"
    and "fst (get_job_status i q) = Inr r \<Longrightarrow> status r \<noteq> ''not_found''"
  using assms
  by (auto simp: known_def get_job_status_def resolve_def reply_def
           split: option.splits sum.splits outcome.splits exn.splits if_splits)

lemma cleanup_keeps_Cons:
  "cleanup_keeps i (x # xs) q =
     ((\<forall>a now. x = Cleanup a now \<longrightarrow> jobs (step x q) i \<noteq> None) \<and>
      cleanup_keeps i xs (step x q))"
  by (cases x) simp_all

lemma step_known:
  assumes "known i q" "task_update x"
    and "\<forall>a now. x = Cleanup a now \<longrightarrow> jobs (step x q) i \<noteq> None"
  shows "known i (step x q)"
proof (cases x)
  case (Register now k)
  with assms show ?thesis
    by (cases "k = i") (simp_all add: known_register, simp add: known_def jobs_register_other)
next
  case Submit
  with assms show ?thesis by (simp add: known_def submit_def)
next
  case (Attach k h)
  with assms show ?thesis
    by (auto simp: known_def attach_future_def split: option.splits)
next
  case (GetStatus k)
  with assms show ?thesis
    by (cases "k = i") (simp_all add: get_known(1), simp add: known_def jobs_get_other)
next
  case (UpdateStatus k st p m)
  with assms show ?thesis
    by (auto simp: known_def update_job_status_def split: option.splits)
next
  case (Cleanup a now)
  with assms show ?thesis
    by (auto simp: known_def cleanup_completed_jobs_def Let_def split: option.splits if_splits)
next
  case Shutdown
  with assms show ?thesis by (simp add: known_def jobs_shutdown)
next
  case (Finish h out)
  with assms show ?thesis by (simp add: known_def jobs_finish)
qed

lemma run_known:
  "known i q \<Longrightarrow> \<forall>x \<in> set ops. task_update x \<Longrightarrow> cleanup_keeps i ops q \<Longrightarrow>
     known i (run ops q)"
proof (induction ops arbitrary: q)
  case Nil
  then show ?case by simp
next
  case (Cons x xs)
  from Cons.prems(3) have c: "\<forall>a now. x = Cleanup a now \<longrightarrow> jobs (step x q) i \<noteq> None"
    and r: "cleanup_keeps i xs (step x q)"
    by (simp_all add: cleanup_keeps_Cons)
  from Cons.prems(1,2) c have "known i (step x q)" by (intro step_known) auto
  with Cons.IH [of "step x q"] Cons.prems(2) r show ?case by simp
qed

text \<open>
  Claim C4. An identifier that is not in the table (it was never enqueued, or a cleanup
  removed its record) is reported \<^verbatim>\<open>not_found\<close>, and the queue is left as it is; after any
  history from the empty queue in which no enqueue registers the identifier, it is reported
  \<^verbatim>\<open>not_found\<close>. From the first locked block of \<^verbatim>\<open>enqueue_job\<close> on, hence at any point
  after the call returned, whatever steps of other threads came between its blocks, and as
  long as no cleanup has removed the record, \<^verbatim>\<open>get_job_status\<close> does not return the status
  \<^verbatim>\<open>not_found\<close> for the identifier. The histories are those of the program: their
  updates pass the statuses that the repository's calls of \<^verbatim>\<open>update_job_status\<close> pass.
\<close>

theorem get_job_status_not_found:
  "(jobs q i = None \<longrightarrow> get_job_status i q = (Inr not_found_reply, q)) \<and>
   ((\<forall>x \<in> set ops. \<not> registers i x) \<longrightarrow>
      fst (get_job_status i (run ops new_queue)) = Inr not_found_reply) \<and>
   ((\<forall>x \<in> set ops'. task_update x) \<and> cleanup_keeps i ops' (register_job now i q') \<longrightarrow>
      (\<forall>r. fst (get_job_status i (run ops' (register_job now i q'))) = Inr r \<longrightarrow>
           status r \<noteq> ''not_found''))"
proof (intro conjI impI allI)
  assume "jobs q i = None"
  then show "get_job_status i q = (Inr not_found_reply, q)" by (rule get_unknown)
next
  assume "\<forall>x \<in> set ops. \<not> registers i x"
  moreover have "jobs new_queue i = None" by (simp add: new_queue_def)
  ultimately have "jobs (run ops new_queue) i = None" by (intro run_unknown)
  then show "fst (get_job_status i (run ops new_queue)) = Inr not_found_reply"
    by (simp add: get_unknown)
next
  fix r
  assume "(\<forall>x \<in> set ops'. task_update x) \<and> cleanup_keeps i ops' (register_job now i q')"
  with known_register have "known i (run ops' (register_job now i q'))"
    by (intro run_known) auto
  moreover assume "fst (get_job_status i (run ops' (register_job now i q'))) = Inr r"
  ultimately show "status r \<noteq> ''not_found''" by (rule get_known(2))
qed

text \<open>
  The three parts at concrete histories. An identifier that was only updated and polled,
  never enqueued, and one whose record a cleanup removed. An enqueued job whose task
  records \<^verbatim>\<open>failed\<close> between the two blocks of the enqueue, with a cleanup that comes
  before the record is a day old, and polls when the future is done.
\<close>

theorem get_job_status_not_found_witness:
  "jobs (run [Register 0 ''b'', Submit, Attach ''b'' 0] new_queue) ''a'' = None \<and>
   get_job_status ''a'' (run [Register 0 ''b'', Submit, Attach ''b'' 0] new_queue) =
     (Inr not_found_reply, run [Register 0 ''b'', Submit, Attach ''b'' 0] new_queue) \<and>
   list_all (\<lambda>x. \<not> registers ''a'' x)
     [Register 0 ''b'', Submit, Attach ''b'' 0,
      UpdateStatus ''a'' ''running'' 0.1 ''Starting experiment'',
      Finish 0 Returned, GetStatus ''b'', Cleanup 24 7] \<and>
   fst (get_job_status ''a''
         (run [Register 0 ''b'', Submit, Attach ''b'' 0,
               UpdateStatus ''a'' ''running'' 0.1 ''Starting experiment'',
               Finish 0 Returned, GetStatus ''b'', Cleanup 24 7] new_queue)) =
     Inr not_found_reply \<and>
   fst (get_job_status ''b''
         (run [Register 0 ''b'', Submit, Attach ''b'' 0, Finish 0 Returned, GetStatus ''b'',
               Cleanup 24 90000] new_queue)) =
     Inr not_found_reply \<and>
   list_all task_update
     [Submit, UpdateStatus ''a'' ''running'' 0.1 ''Starting experiment'',
      UpdateStatus ''a'' ''failed'' 0 ''Experiment failed: boom'', Finish 0 Returned,
      Attach ''a'' 0, Cleanup 24 3600, GetStatus ''a''] \<and>
   cleanup_keeps ''a''
     [Submit, UpdateStatus ''a'' ''running'' 0.1 ''Starting experiment'',
      UpdateStatus ''a'' ''failed'' 0 ''Experiment failed: boom'', Finish 0 Returned,
      Attach ''a'' 0, Cleanup 24 3600, GetStatus ''a'']
     (register_job 0 ''a'' new_queue) \<and>
   fst (get_job_status ''a''
         (run [Submit, UpdateStatus ''a'' ''running'' 0.1 ''Starting experiment'',
               UpdateStatus ''a'' ''failed'' 0 ''Experiment failed: boom'', Finish 0 Returned,
               Attach ''a'' 0, Cleanup 24 3600, GetStatus ''a'']
              (register_job 0 ''a'' new_queue))) =
     Inr \<lparr>status = ''completed'', progress = 1, message = ''Job completed''\<rparr> \<and>
   status \<lparr>status = ''completed'', progress = 1, message = ''Job completed''\<rparr> \<noteq> ''not_found''"
proof -
  have h1: "jobs (run [Register 0 ''b'', Submit, Attach ''b'' 0] new_queue) ''a'' = None"
    by (simp add: queue_eval)
  have h2: "\<forall>x \<in> set [Register 0 ''b'', Submit, Attach ''b'' 0,
      UpdateStatus ''a'' ''running'' 0.1 ''Starting experiment'',
      Finish 0 Returned, GetStatus ''b'', Cleanup 24 7]. \<not> registers ''a'' x"
    by simp
  have h3: "\<forall>x \<in> set [Submit, UpdateStatus ''a'' ''running'' 0.1 ''Starting experiment'',
      UpdateStatus ''a'' ''failed'' 0 ''Experiment failed: boom'', Finish 0 Returned,
      Attach ''a'' 0, Cleanup 24 3600, GetStatus ''a'']. task_update x"
    by simp
  have h4: "cleanup_keeps ''a''
     [Submit, UpdateStatus ''a'' ''running'' 0.1 ''Starting experiment'',
      UpdateStatus ''a'' ''failed'' 0 ''Experiment failed: boom'', Finish 0 Returned,
      Attach ''a'' 0, Cleanup 24 3600, GetStatus ''a'']
     (register_job 0 ''a'' new_queue)"
    by (simp add: queue_eval)
  have removed: "jobs (run [Register 0 ''b'', Submit, Attach ''b'' 0, Finish 0 Returned,
               GetStatus ''b'', Cleanup 24 90000] new_queue) ''b'' = None"
    by (simp add: queue_eval)
  have e: "fst (get_job_status ''a''
         (run [Submit, UpdateStatus ''a'' ''running'' 0.1 ''Starting experiment'',
               UpdateStatus ''a'' ''failed'' 0 ''Experiment failed: boom'', Finish 0 Returned,
               Attach ''a'' 0, Cleanup 24 3600, GetStatus ''a'']
              (register_job 0 ''a'' new_queue))) =
     Inr \<lparr>status = ''completed'', progress = 1, message = ''Job completed''\<rparr>"
    by (simp add: queue_eval)
  note t = get_job_status_not_found
    [of "run [Register 0 ''b'', Submit, Attach ''b'' 0] new_queue" "''a''"
        "[Register 0 ''b'', Submit, Attach ''b'' 0,
          UpdateStatus ''a'' ''running'' 0.1 ''Starting experiment'',
          Finish 0 Returned, GetStatus ''b'', Cleanup 24 7]"
        "[Submit, UpdateStatus ''a'' ''running'' 0.1 ''Starting experiment'',
          UpdateStatus ''a'' ''failed'' 0 ''Experiment failed: boom'', Finish 0 Returned,
          Attach ''a'' 0, Cleanup 24 3600, GetStatus ''a'']" 0 new_queue]
  note u = get_job_status_not_found
    [of "run [Register 0 ''b'', Submit, Attach ''b'' 0, Finish 0 Returned,
              GetStatus ''b'', Cleanup 24 90000] new_queue" "''b''"]
  from u removed have r: "fst (get_job_status ''b''
         (run [Register 0 ''b'', Submit, Attach ''b'' 0, Finish 0 Returned, GetStatus ''b'',
               Cleanup 24 90000] new_queue)) = Inr not_found_reply"
    by simp
  from t h1 h2 h3 h4 e r show ?thesis by (simp add: list_all_iff)
qed

text \<open>
  The restriction to the statuses of the program is needed: \<^verbatim>\<open>update_job_status\<close> stores any
  string as the status.
\<close>

lemma not_found_status_written:
  "fst (get_job_status ''j''
         (run [Register 0 ''j'', Submit, Attach ''j'' 0,
               UpdateStatus ''j'' ''not_found'' 0.5 ''x''] new_queue)) =
     Inr \<lparr>status = ''not_found'', progress = 0.5, message = ''x''\<rparr>"
  by (simp add: queue_eval)

subsection \<open>Terminal records\<close>

lemma step_keeps:
  assumes "terminal_as i j q" "status j \<in> {''completed'', ''failed''}" "keeps i j x"
  shows "terminal_as i j (step x q)"
proof (cases x)
  case (Register now k)
  with assms show ?thesis by (simp add: terminal_as_def jobs_register_other)
next
  case Submit
  with assms show ?thesis by (simp add: terminal_as_def submit_def)
next
  case (Attach k h)
  with assms show ?thesis
    by (simp add: terminal_as_def attach_future_def split: option.splits)
next
  case (GetStatus k)
  show ?thesis
  proof (cases "k = i")
    case True
    from assms obtain j' where j': "jobs q i = Some j'" "status j' = status j"
      by (auto simp: terminal_as_def split: option.splits)
    with assms(2) have "get_job_status i q = (Inr (reply j'), q)"
      by (intro get_terminal) auto
    with GetStatus True assms(1) show ?thesis by simp
  next
    case False
    with GetStatus assms(1) show ?thesis by (simp add: terminal_as_def jobs_get_other)
  qed
next
  case (UpdateStatus k st p m)
  with assms show ?thesis
    by (auto simp: terminal_as_def update_job_status_def split: option.splits)
next
  case (Cleanup a now)
  with assms show ?thesis
    by (auto simp: terminal_as_def cleanup_completed_jobs_def Let_def split: option.splits)
next
  case Shutdown
  with assms show ?thesis by (simp add: terminal_as_def jobs_shutdown)
next
  case (Finish h out)
  with assms show ?thesis by (simp add: terminal_as_def jobs_finish)
qed

lemma run_keeps:
  "terminal_as i j q \<Longrightarrow> status j \<in> {''completed'', ''failed''} \<Longrightarrow>
   \<forall>x \<in> set ops. keeps i j x \<Longrightarrow> terminal_as i j (run ops q)"
proof (induction ops arbitrary: q)
  case Nil
  then show ?case by simp
next
  case (Cons x xs)
  from Cons.prems have "terminal_as i j (step x q)" by (intro step_keeps) auto
  with Cons show ?case by simp
qed

text \<open>
  What the polls themselves guarantee. Once a record has the status \<^verbatim>\<open>completed\<close> or
  \<^verbatim>\<open>failed\<close>, no history of polls (of any identifier, whatever the futures report),
  completions of futures, shutdown, steps on other identifiers, updates that pass the same
  status and cleanups that are too early for the record changes that status. The second
  locked block of an enqueue of the identifier is not among these steps.
\<close>

lemma terminal_status_kept:
  assumes "jobs q i = Some j" "status j \<in> {''completed'', ''failed''}"
    "\<forall>x \<in> set ops. keeps i j x"
  shows "\<exists>j'. jobs (run ops q) i = Some j' \<and> status j' = status j \<and>
           get_job_status i (run ops q) = (Inr (reply j'), run ops q) \<and>
           status (reply j') = status j"
proof -
  from assms(1) have "terminal_as i j q" by (simp add: terminal_as_def)
  with assms have "terminal_as i j (run ops q)" by (intro run_keeps)
  then obtain j' where j': "jobs (run ops q) i = Some j'" "status j' = status j"
    by (auto simp: terminal_as_def split: option.splits)
  with assms(2) have "get_job_status i (run ops q) = (Inr (reply j'), run ops q)"
    by (intro get_terminal) auto
  with j' show ?thesis by (simp add: reply_def)
qed

text \<open>
  Claim C1 fails on the code. \<^verbatim>\<open>enqueue_job\<close> releases the lock between storing the record
  and storing the future, and its second block sets the status to \<^verbatim>\<open>running\<close> whatever it
  is by then. Here the submitted task runs between the two blocks: it reports progress,
  its body raises, its handler records \<^verbatim>\<open>failed\<close>, and it returns. A poll reports
  \<^verbatim>\<open>failed\<close>. Then the second block of the enqueue runs, and the next poll resolves the
  done future to \<^verbatim>\<open>completed\<close>: the job has left a terminal status, with no further
  update, enqueue or cleanup.
\<close>

theorem pending_enqueue_resets_failed:
  "fst (get_job_status ''j''
         (run [Register 0 ''j'', Submit,
               UpdateStatus ''j'' ''running'' 0.1 ''Starting experiment'',
               UpdateStatus ''j'' ''failed'' 0 ''Experiment failed: boom'',
               Finish 0 Returned] new_queue)) =
     Inr \<lparr>status = ''failed'', progress = 0, message = ''Experiment failed: boom''\<rparr> \<and>
   fst (get_job_status ''j''
         (run [Register 0 ''j'', Submit,
               UpdateStatus ''j'' ''running'' 0.1 ''Starting experiment'',
               UpdateStatus ''j'' ''failed'' 0 ''Experiment failed: boom'',
               Finish 0 Returned, GetStatus ''j'', Attach ''j'' 0] new_queue)) =
     Inr \<lparr>status = ''completed'', progress = 1, message = ''Job completed''\<rparr>"
  by (simp add: queue_eval)

subsection \<open>Polls and updates\<close>

text \<open>
  Claim C2. For a registered job whose future is done and whose record is not terminal,
  \<^verbatim>\<open>get_job_status\<close> resolves the record: if the callable returned, to \<^verbatim>\<open>completed\<close> with
  progress 1.0; if it raised an exception \<open>e\<close>, to \<^verbatim>\<open>failed\<close> with the message
  \<^verbatim>\<open>Job failed: \<close> followed by \<^verbatim>\<open>str(e)\<close>. The dictionary returned holds the resolved
  status, progress and message, and the record stored is the resolved one.
\<close>

theorem get_job_status_resolves:
  assumes "jobs q i = Some j" "future j = Some h" "futures q h = Some out"
    "status j \<notin> {''completed'', ''failed''}"
  shows "(out = Returned \<longrightarrow>
           get_job_status i q =
             (Inr \<lparr>status = ''completed'', progress = 1, message = ''Job completed''\<rparr>,
              q\<lparr>jobs := (jobs q)(i \<mapsto>
                   j\<lparr>status := ''completed'', progress := 1, message := ''Job completed''\<rparr>)\<rparr>)) \<and>
         (\<forall>e. out = Raised (Exception e) \<longrightarrow>
           get_job_status i q =
             (Inr \<lparr>status = ''failed'', progress = 0, message = ''Job failed: '' @ e\<rparr>,
              q\<lparr>jobs := (jobs q)(i \<mapsto>
                   j\<lparr>status := ''failed'', progress := 0, message := ''Job failed: '' @ e\<rparr>)\<rparr>))"
  using assms by (auto simp: get_job_status_def resolve_def reply_def)

text \<open>
  A job that was enqueued, reported progress, and whose future is done: once with a
  callable that returned, once with one that raised.
\<close>

theorem get_job_status_resolves_witness:
  "jobs (run [Register 0 ''j'', Submit, Attach ''j'' 0, UpdateStatus ''j'' ''running'' 0.6 ''Simulation completed'',
              Finish 0 (Raised (Exception ''boom''))] new_queue) ''j'' =
     Some \<lparr>status = ''running'', progress = 0.6, message = ''Simulation completed'',
           created_at = 0, future = Some 0\<rparr> \<and>
   future \<lparr>status = ''running'', progress = 0.6, message = ''Simulation completed'',
           created_at = 0, future = Some 0\<rparr> = Some 0 \<and>
   futures (run [Register 0 ''j'', Submit, Attach ''j'' 0, UpdateStatus ''j'' ''running'' 0.6 ''Simulation completed'',
                 Finish 0 (Raised (Exception ''boom''))] new_queue) 0 =
     Some (Raised (Exception ''boom'')) \<and>
   status \<lparr>status = ''running'', progress = 0.6, message = ''Simulation completed'',
           created_at = 0, future = Some 0\<rparr> \<notin> {''completed'', ''failed''} \<and>
   fst (get_job_status ''j''
         (run [Register 0 ''j'', Submit, Attach ''j'' 0, UpdateStatus ''j'' ''running'' 0.6 ''Simulation completed'',
               Finish 0 (Raised (Exception ''boom''))] new_queue)) =
     Inr \<lparr>status = ''failed'', progress = 0, message = ''Job failed: boom''\<rparr> \<and>
   jobs (run [Register 1 ''k'', Submit, Attach ''k'' 0, Finish 0 Returned] new_queue) ''k'' =
     Some \<lparr>status = ''running'', progress = 0, message = ''Job queued'',
           created_at = 1, future = Some 0\<rparr> \<and>
   futures (run [Register 1 ''k'', Submit, Attach ''k'' 0, Finish 0 Returned] new_queue) 0 = Some Returned \<and>
   fst (get_job_status ''k'' (run [Register 1 ''k'', Submit, Attach ''k'' 0, Finish 0 Returned] new_queue)) =
     Inr \<lparr>status = ''completed'', progress = 1, message = ''Job completed''\<rparr>"
proof -
  have a1: "jobs (run [Register 0 ''j'', Submit, Attach ''j'' 0, UpdateStatus ''j'' ''running'' 0.6 ''Simulation completed'',
              Finish 0 (Raised (Exception ''boom''))] new_queue) ''j'' =
     Some \<lparr>status = ''running'', progress = 0.6, message = ''Simulation completed'',
           created_at = 0, future = Some 0\<rparr>"
    by (simp add: queue_eval)
  have a2: "future \<lparr>status = ''running'', progress = 0.6, message = ''Simulation completed'',
           created_at = 0, future = Some 0\<rparr> = Some 0"
    by simp
  have a3: "futures (run [Register 0 ''j'', Submit, Attach ''j'' 0, UpdateStatus ''j'' ''running'' 0.6 ''Simulation completed'',
                 Finish 0 (Raised (Exception ''boom''))] new_queue) 0 =
     Some (Raised (Exception ''boom''))"
    by (simp add: queue_eval)
  have a4: "status \<lparr>status = ''running'', progress = 0.6, message = ''Simulation completed'',
           created_at = 0, future = Some 0\<rparr> \<notin> {''completed'', ''failed''}"
    by simp
  have b1: "jobs (run [Register 1 ''k'', Submit, Attach ''k'' 0, Finish 0 Returned] new_queue) ''k'' =
     Some \<lparr>status = ''running'', progress = 0, message = ''Job queued'',
           created_at = 1, future = Some 0\<rparr>"
    by (simp add: queue_eval)
  have b2: "future \<lparr>status = ''running'', progress = 0, message = ''Job queued'',
           created_at = 1, future = Some 0\<rparr> = Some 0"
    by simp
  have b3: "futures (run [Register 1 ''k'', Submit, Attach ''k'' 0, Finish 0 Returned] new_queue) 0 = Some Returned"
    by (simp add: queue_eval)
  have b4: "status \<lparr>status = ''running'', progress = 0, message = ''Job queued'',
           created_at = 1, future = Some 0\<rparr> \<notin> {''completed'', ''failed''}"
    by simp
  from get_job_status_resolves [OF a1 a2 a3 a4] get_job_status_resolves [OF b1 b2 b3 b4]
    a1 a2 a3 a4 b1 b3
  show ?thesis by simp
qed

text \<open>
  An exception of the callable that \<^verbatim>\<open>except Exception\<close> does not catch is re-raised by
  \<^verbatim>\<open>result()\<close> out of \<^verbatim>\<open>get_job_status\<close>, and the queue stays as it was.
\<close>

lemma get_job_status_propagates:
  assumes "jobs q i = Some j" "future j = Some h"
    "futures q h = Some (Raised (BaseException e))"
    "status j \<notin> {''completed'', ''failed''}"
  shows "get_job_status i q = (Inl (BaseException e), q)"
  using assms by (auto simp: get_job_status_def resolve_def)

subsection \<open>Enqueueing\<close>

text \<open>
  Claim C3, as amended. \<^verbatim>\<open>enqueue_job\<close> stores a record with status \<^verbatim>\<open>queued\<close> and progress
  0, submits the task, and sets the record to \<^verbatim>\<open>running\<close> with the new future. It does not
  look at the identifier: for every identifier, in the table or not, it returns when the
  executor accepts the submission, and the record stored under the identifier is the fresh
  one, whatever was there. It raises only when the executor was shut down, and then the
  queued record stays in the table.
\<close>

theorem enqueue_job_any_identifier:
  "(\<not> is_shutdown q \<longrightarrow>
      enqueue_job now i q =
        (Inr (),
         q\<lparr>jobs := (jobs q)(i \<mapsto>
              \<lparr>status = ''running'', progress = 0, message = ''Job queued'',
               created_at = now, future = Some (next_future q)\<rparr>),
           futures := (futures q)(next_future q := None),
           next_future := Suc (next_future q)\<rparr>)) \<and>
   (is_shutdown q \<longrightarrow>
      enqueue_job now i q =
        (Inl (Exception ''cannot schedule new futures after shutdown''),
         q\<lparr>jobs := (jobs q)(i \<mapsto>
              \<lparr>status = ''queued'', progress = 0, message = ''Job queued'',
               created_at = now, future = None\<rparr>)\<rparr>)) \<and>
   jobs (register_job now i q) i =
     Some \<lparr>status = ''queued'', progress = 0, message = ''Job queued'',
           created_at = now, future = None\<rparr>"
  by (simp add: enqueue_job_def register_job_def submit_def attach_future_def Let_def)

text \<open>
  A second enqueue of an identifier that is in the table, on a live executor and on one that
  was shut down.
\<close>

theorem enqueue_job_any_identifier_witness:
  "\<not> is_shutdown (snd (enqueue_job 0 ''j'' new_queue)) \<and>
   jobs (snd (enqueue_job 0 ''j'' new_queue)) ''j'' \<noteq> None \<and>
   fst (enqueue_job 1 ''j'' (snd (enqueue_job 0 ''j'' new_queue))) = Inr () \<and>
   jobs (snd (enqueue_job 1 ''j'' (snd (enqueue_job 0 ''j'' new_queue)))) ''j'' =
     Some \<lparr>status = ''running'', progress = 0, message = ''Job queued'',
           created_at = 1, future = Some 1\<rparr> \<and>
   is_shutdown (shutdown (snd (enqueue_job 0 ''j'' new_queue))) \<and>
   fst (enqueue_job 1 ''j'' (shutdown (snd (enqueue_job 0 ''j'' new_queue)))) =
     Inl (Exception ''cannot schedule new futures after shutdown'') \<and>
   jobs (snd (enqueue_job 1 ''j'' (shutdown (snd (enqueue_job 0 ''j'' new_queue))))) ''j'' =
     Some \<lparr>status = ''queued'', progress = 0, message = ''Job queued'',
           created_at = 1, future = None\<rparr>"
proof -
  have live: "\<not> is_shutdown (snd (enqueue_job 0 ''j'' new_queue))"
    by (simp add: queue_eval)
  have down: "is_shutdown (shutdown (snd (enqueue_job 0 ''j'' new_queue)))"
    by (simp add: queue_eval)
  have there: "jobs (snd (enqueue_job 0 ''j'' new_queue)) ''j'' \<noteq> None"
    by (simp add: queue_eval)
  have n: "next_future (snd (enqueue_job 0 ''j'' new_queue)) = 1"
    by (simp add: queue_eval)
  from enqueue_job_any_identifier [of "snd (enqueue_job 0 ''j'' new_queue)" 1 "''j''"]
    enqueue_job_any_identifier [of "shutdown (snd (enqueue_job 0 ''j'' new_queue))" 1 "''j''"]
    live down there n
  show ?thesis by simp
qed

text \<open>
  Claim C3 as it is stated fails: enqueueing an identifier that is in the table does not
  fail, and the record that was there (progress 0.6, created at 0) is replaced.
\<close>

theorem enqueue_job_existing_identifier:
  "jobs (run [Register 0 ''j'', Submit, Attach ''j'' 0, UpdateStatus ''j'' ''running'' 0.6 ''Simulation completed'']
          new_queue) ''j'' =
     Some \<lparr>status = ''running'', progress = 0.6, message = ''Simulation completed'',
           created_at = 0, future = Some 0\<rparr> \<and>
   fst (enqueue_job 1 ''j''
         (run [Register 0 ''j'', Submit, Attach ''j'' 0, UpdateStatus ''j'' ''running'' 0.6 ''Simulation completed'']
            new_queue)) = Inr () \<and>
   jobs (snd (enqueue_job 1 ''j''
         (run [Register 0 ''j'', Submit, Attach ''j'' 0, UpdateStatus ''j'' ''running'' 0.6 ''Simulation completed'']
            new_queue))) ''j'' =
     Some \<lparr>status = ''running'', progress = 0, message = ''Job queued'',
           created_at = 1, future = Some 1\<rparr>"
  by (simp add: queue_eval)

subsection \<open>Updates of unknown identifiers\<close>

text \<open>
  Claim C9. \<^verbatim>\<open>update_job_status\<close> on an identifier that is not in the table returns
  normally (the model has no error value for it, as the method has no raise) and leaves the
  whole queue, hence every record, as it is.
\<close>

theorem update_job_status_unknown:
  "jobs q i = None \<Longrightarrow> update_job_status i st p m q = q"
  by (simp add: update_job_status_def)

theorem update_job_status_unknown_witness:
  "jobs (snd (enqueue_job 0 ''a'' new_queue)) ''b'' = None \<and>
   update_job_status ''b'' ''running'' 0.1 ''Starting experiment''
     (snd (enqueue_job 0 ''a'' new_queue)) = snd (enqueue_job 0 ''a'' new_queue) \<and>
   jobs (update_job_status ''b'' ''running'' 0.1 ''Starting experiment''
     (snd (enqueue_job 0 ''a'' new_queue))) ''a'' =
     Some \<lparr>status = ''running'', progress = 0, message = ''Job queued'',
           created_at = 0, future = Some 0\<rparr>"
proof -
  have h: "jobs (snd (enqueue_job 0 ''a'' new_queue)) ''b'' = None"
    by (simp add: queue_eval)
  have r: "jobs (snd (enqueue_job 0 ''a'' new_queue)) ''a'' =
     Some \<lparr>status = ''running'', progress = 0, message = ''Job queued'',
           created_at = 0, future = Some 0\<rparr>"
    by (simp add: queue_eval)
  from update_job_status_unknown [OF h, of "''running''" "0.1" "''Starting experiment''"] h r
  show ?thesis by simp
qed

section \<open>Properties of the optimizer\<close>

lemma within_three_bounds:
  assumes "within_bounds [(a, b), (c, d), (e, f)] xs"
  obtains x0 x1 x2 where "xs = [x0, x1, x2]" "a \<le> x0" "x0 \<le> b" "c \<le> x1" "x1 \<le> d"
    "e \<le> x2" "x2 \<le> f"
  using assms by (auto simp: within_bounds_def list_all2_Cons1)

text \<open>
  Claim C6, as amended. When \<^verbatim>\<open>optimize_fuel_mixture\<close> returns with the success flag, the
  optimal parameters it returns are the first three coordinates of the point that the
  minimizer reported with its success flag, copied as they are, and the impulse 300. The
  minimizer was called on the declared bounds (ratio in [2, 6], pressure in [1, 10],
  temperature in [2500, 5000]) and the constraint that \<open>max_temp\<close> minus the temperature is
  not negative. The function checks neither: the parameters lie within the bounds and
  below \<open>max_temp\<close> when the minimizer's point is feasible for the problem.
\<close>

theorem optimize_fuel_mixture_success:
  assumes "fst (optimize_fuel_mixture solver model a mt n) = Inr r" and "success r"
  shows "\<exists>res x0 x1 x2 rest.
           solver n \<lparr>objective_fn = objective model a,
                     initial_guess = [3.5, 5.0, 3000.0],
                     bounds = [(2, 6), (1, 10), (2500, 5000)],
                     constraints = [temp_constraint mt]\<rparr> = Inr res \<and>
           opt_success res \<and> opt_x res = x0 # x1 # x2 # rest \<and>
           optimal_params r =
             Some \<lparr>O_F_ratio = x0, pressure = x1, temp = x2, isp = 300\<rparr> \<and>
           (feasible (fuel_problem model a mt) (opt_x res) \<longrightarrow>
              2 \<le> x0 \<and> x0 \<le> 6 \<and> 1 \<le> x1 \<and> x1 \<le> 10 \<and>
              2500 \<le> x2 \<and> x2 \<le> 5000 \<and> x2 \<le> mt)"
proof (cases "solver n (fuel_problem model a mt)")
  case (Inl e)
  with assms(1) show ?thesis by (simp add: optimize_fuel_mixture_def)
next
  case (Inr res)
  show ?thesis
  proof (cases "opt_success res")
    case False
    with Inr assms show ?thesis by (auto simp: optimize_fuel_mixture_def)
  next
    case True
    with Inr assms(1) obtain x0 x1 x2 rest where x: "opt_x res = x0 # x1 # x2 # rest"
      and p: "optimal_params r = Some \<lparr>O_F_ratio = x0, pressure = x1, temp = x2, isp = 300\<rparr>"
      by (auto simp: optimize_fuel_mixture_def Let_def split: list.splits sum.splits)
    have "2 \<le> x0 \<and> x0 \<le> 6 \<and> 1 \<le> x1 \<and> x1 \<le> 10 \<and> 2500 \<le> x2 \<and> x2 \<le> 5000 \<and> x2 \<le> mt"
      if f: "feasible (fuel_problem model a mt) (opt_x res)"
    proof -
      from f have "within_bounds [(2, 6), (1, 10), (2500, 5000)] (opt_x res)"
        by (simp add: feasible_def fuel_problem_def)
      then obtain y0 y1 y2 where y: "opt_x res = [y0, y1, y2]"
        "2 \<le> y0" "y0 \<le> 6" "1 \<le> y1" "y1 \<le> 10" "2500 \<le> y2" "y2 \<le> 5000"
        by (rule within_three_bounds)
      from f y(1) have "y2 \<le> mt"
        by (simp add: feasible_def fuel_problem_def satisfies_def temp_constraint_def)
      with x y show ?thesis by simp
    qed
    with Inr True x p show ?thesis by (auto simp: fuel_problem_def)
  qed
qed

theorem optimize_fuel_mixture_success_witness:
  "fst (optimize_fuel_mixture guess_minimizer thrust_model 0.5 4000 0) =
     Inr \<lparr>success = True,
          optimal_params = Some \<lparr>O_F_ratio = 3.5, pressure = 5, temp = 3000, isp = 300\<rparr>,
          predicted_thrust = Some 1471.5,
          optimization_value = Some 764.25,
          error = None\<rparr> \<and>
   success \<lparr>success = True,
          optimal_params = Some \<lparr>O_F_ratio = 3.5, pressure = 5, temp = 3000, isp = 300\<rparr>,
          predicted_thrust = Some 1471.5,
          optimization_value = Some 764.25,
          error = None\<rparr> \<and>
   feasible (fuel_problem thrust_model 0.5 4000) [3.5, 5, 3000] \<and>
   (\<exists>res x0 x1 x2 rest.
      guess_minimizer 0 (fuel_problem thrust_model 0.5 4000) = Inr res \<and>
      opt_success res \<and> opt_x res = x0 # x1 # x2 # rest \<and>
      Some \<lparr>O_F_ratio = 3.5, pressure = 5, temp = 3000, isp = 300\<rparr> =
        Some \<lparr>O_F_ratio = x0, pressure = x1, temp = x2, isp = 300\<rparr> \<and>
      2 \<le> x0 \<and> x0 \<le> 6 \<and> 1 \<le> x1 \<and> x1 \<le> 10 \<and>
      2500 \<le> x2 \<and> x2 \<le> 5000 \<and> x2 \<le> 4000)"
proof -
  have e: "fst (optimize_fuel_mixture guess_minimizer thrust_model 0.5 4000 0) =
     Inr \<lparr>success = True,
          optimal_params = Some \<lparr>O_F_ratio = 3.5, pressure = 5, temp = 3000, isp = 300\<rparr>,
          predicted_thrust = Some 1471.5,
          optimization_value = Some 764.25,
          error = None\<rparr>"
    by (simp add: optimize_fuel_mixture_def guess_minimizer_def fuel_problem_def
        objective_def thrust_model_def feasible_def within_bounds_def satisfies_def
        temp_constraint_def simulate_def)
  have s: "success \<lparr>success = True,
          optimal_params = Some \<lparr>O_F_ratio = 3.5, pressure = 5, temp = 3000, isp = 300\<rparr>,
          predicted_thrust = Some 1471.5,
          optimization_value = Some 764.25,
          error = None\<rparr>"
    by simp
  have f: "feasible (fuel_problem thrust_model 0.5 4000) [3.5, 5, 3000]"
    by (simp add: feasible_def fuel_problem_def within_bounds_def satisfies_def
        temp_constraint_def)
  have g: "opt_x (projr (guess_minimizer 0 (fuel_problem thrust_model 0.5 4000))) =
      [3.5, 5, 3000]"
    by (simp add: guess_minimizer_def fuel_problem_def objective_def thrust_model_def)
  from optimize_fuel_mixture_success [OF e s] obtain res x0 x1 x2 rest where
    r: "guess_minimizer 0 (fuel_problem thrust_model 0.5 4000) = Inr res"
      "opt_success res" "opt_x res = x0 # x1 # x2 # rest"
      "Some \<lparr>O_F_ratio = 3.5, pressure = 5, temp = 3000, isp = 300\<rparr> =
        Some \<lparr>O_F_ratio = x0, pressure = x1, temp = x2, isp = 300\<rparr>"
      "feasible (fuel_problem thrust_model 0.5 4000) (opt_x res) \<longrightarrow>
         2 \<le> x0 \<and> x0 \<le> 6 \<and> 1 \<le> x1 \<and> x1 \<le> 10 \<and> 2500 \<le> x2 \<and> x2 \<le> 5000 \<and> x2 \<le> 4000"
    by (auto simp: fuel_problem_def)
  from r(1) g f have "feasible (fuel_problem thrust_model 0.5 4000) (opt_x res)" by simp
  with r e s f show ?thesis by blast
qed

text \<open>
  Claim C6 as it is stated fails: the function returns the point of the minimizer unchecked,
  and a minimizer that meets the constraint up to its tolerance reports, for a maximum
  temperature of 2500, a success at temperature 2500.0000000114. The result carries the
  success flag and a temperature above \<open>max_temp\<close>.
\<close>

theorem optimize_fuel_mixture_above_max_temp:
  "fst (optimize_fuel_mixture tolerant_minimizer thrust_model 0.5 2500 0) =
     Inr \<lparr>success = True,
          optimal_params =
            Some \<lparr>O_F_ratio = 3.5, pressure = 5, temp = 2500.0000000114, isp = 300\<rparr>,
          predicted_thrust = Some 1471.5,
          optimization_value = Some 514.2500000057,
          error = None\<rparr> \<and>
   \<not> (2500.0000000114 :: real) \<le> 2500"
  by (simp add: optimize_fuel_mixture_def tolerant_minimizer_def fuel_problem_def
      objective_def thrust_model_def simulate_def)

text \<open>
  Claim C7. When the minimizer returns without the success flag, \<^verbatim>\<open>optimize_fuel_mixture\<close>
  returns (it does not raise) the dictionary with \<^verbatim>\<open>success\<close> false and the solver's message
  under \<^verbatim>\<open>error\<close>, after exactly one call of the minimizer: the answer is that of the
  first call, whatever a further call would have answered.
\<close>

theorem optimize_fuel_mixture_not_converged:
  assumes "solver n (fuel_problem model a mt) = Inr res" and "\<not> opt_success res"
  shows "optimize_fuel_mixture solver model a mt n =
           (Inr \<lparr>success = False, optimal_params = None, predicted_thrust = None,
                 optimization_value = None, error = Some (opt_message res)\<rparr>,
            Suc n)"
  using assms by (simp add: optimize_fuel_mixture_def)

theorem optimize_fuel_mixture_not_converged_witness:
  "stubborn_minimizer 0 (fuel_problem thrust_model 0.5 4000) =
     Inr \<lparr>opt_success = False, opt_x = [3.5, 5, 3000], opt_fun = 0,
          opt_message = ''Iteration limit reached''\<rparr> \<and>
   \<not> opt_success \<lparr>opt_success = False, opt_x = [3.5, 5, 3000], opt_fun = 0,
          opt_message = ''Iteration limit reached''\<rparr> \<and>
   opt_success (projr (stubborn_minimizer 1 (fuel_problem thrust_model 0.5 4000))) \<and>
   optimize_fuel_mixture stubborn_minimizer thrust_model 0.5 4000 0 =
     (Inr \<lparr>success = False, optimal_params = None, predicted_thrust = None,
           optimization_value = None, error = Some ''Iteration limit reached''\<rparr>,
      1)"
proof -
  have h1: "stubborn_minimizer 0 (fuel_problem thrust_model 0.5 4000) =
     Inr \<lparr>opt_success = False, opt_x = [3.5, 5, 3000], opt_fun = 0,
          opt_message = ''Iteration limit reached''\<rparr>"
    by (simp add: stubborn_minimizer_def fuel_problem_def)
  have h2: "\<not> opt_success \<lparr>opt_success = False, opt_x = [3.5, 5, 3000], opt_fun = 0,
          opt_message = ''Iteration limit reached''\<rparr>"
    by simp
  have h3: "opt_success (projr (stubborn_minimizer 1 (fuel_problem thrust_model 0.5 4000)))"
    by (simp add: stubborn_minimizer_def)
  from optimize_fuel_mixture_not_converged
         [of stubborn_minimizer 0 thrust_model "0.5" 4000, OF h1 h2] h1 h2 h3
  show ?thesis by simp
qed

section \<open>Properties of the API\<close>

text \<open>
  Claim C8. A request to \<^verbatim>\<open>POST /run\<close> in which one of the four required parameters
  carries a value outside its declared bounds, or \<^verbatim>\<open>alpha\<close> a value outside \<open>[0, 1]\<close>, is
  answered with 422, and the process state is what it was: no experiment row was written
  and no job was enqueued.
\<close>

theorem post_run_rejects:
  assumes "out_of_bounds 2 6 (body_O_F_ratio body) \<or> out_of_bounds 1 10 (body_pressure body) \<or>
           out_of_bounds 2500 5000 (body_temp body) \<or> out_of_bounds 200 450 (body_isp body) \<or>
           out_of_bounds 0 1 (body_alpha body)"
  shows "post_run body job_id t_exp t_job w = (Unprocessable_422, w)"
proof -
  from assms have "validate body = None"
    by (auto simp: validate_def out_of_bounds_def required_float_def optional_float_def
          in_range_def split: field.splits option.splits)
  then show ?thesis by (simp add: post_run_def)
qed

theorem post_run_rejects_witness:
  "out_of_bounds 2 6 (body_O_F_ratio (example_body\<lparr>body_O_F_ratio := Value 10.0\<rparr>)) \<and>
   post_run (example_body\<lparr>body_O_F_ratio := Value 10.0\<rparr>) ''id-1'' 0 0 initial_world =
     (Unprocessable_422, initial_world) \<and>
   fst (post_run example_body ''id-1'' 0 0 initial_world) =
     Ok_200 \<lparr>response_job_id = ''id-1'', response_status = ''queued'',
             response_message = ''Experiment queued successfully''\<rparr>"
proof -
  have h: "out_of_bounds 2 6 (body_O_F_ratio (example_body\<lparr>body_O_F_ratio := Value 10.0\<rparr>))"
    by (simp add: out_of_bounds_def example_body_def)
  have ok: "fst (post_run example_body ''id-1'' 0 0 initial_world) =
     Ok_200 \<lparr>response_job_id = ''id-1'', response_status = ''queued'',
             response_message = ''Experiment queued successfully''\<rparr>"
    by (simp add: post_run_def validate_def example_body_def required_float_def
        optional_float_def optional_bool_def in_range_def run_experiment_def commit_def
        conflicts_def new_session_def initial_world_def insert_rows_def write_status_def
        enqueue_job_eq new_queue_def)
  from post_run_rejects [of "example_body\<lparr>body_O_F_ratio := Value 10.0\<rparr>" "''id-1''" 0 0 initial_world]
    h ok
  show ?thesis by simp
qed

subsection \<open>The background task\<close>

lemma commit_one_result:
  assumes "experiments d k = Some ex" "results d k = None"
  shows "commit \<lparr>new_experiments = [], new_results = [(k, r)], status_writes = [(k, st)]\<rparr> d =
           Inr \<lparr>experiments = (experiments d)(k \<mapsto> ex\<lparr>experiment_status := st\<rparr>),
                results = (results d)(k \<mapsto> r)\<rparr>"
  using assms by (simp add: commit_def conflicts_def insert_rows_def write_status_def)

lemma db_set_status [simp]: "db (set_status k st p m w) = db w"
  by (simp add: set_status_def)

lemma model_cache_set_status [simp]: "model_cache (set_status k st p m w) = model_cache w"
  by (simp add: set_status_def)

lemma solver_calls_set_status [simp]: "solver_calls (set_status k st p m w) = solver_calls w"
  by (simp add: set_status_def)

lemma registered_set_status [simp]:
  "(jobs (job_queue (set_status k st p m w)) i = None) = (jobs (job_queue w) i = None)"
  by (auto simp: set_status_def update_job_status_def split: option.splits)

lemma jobs_set_status_known:
  "jobs (job_queue w) k = Some j \<Longrightarrow>
     jobs (job_queue (set_status k st p m w)) k =
       Some (j\<lparr>status := st, progress := p, message := m\<rparr>)"
  by (simp add: set_status_def update_job_status_def)

text \<open>What the \<^verbatim>\<open>try\<close> block leaves behind when it raises, and when it returns.\<close>

lemma task_body_raises:
  assumes "experiments (db w) k = Some ex" "results (db w) k = None"
    and "task_body env k ps t w = (Inl e, s, w1)"
  shows "s = new_session \<and> db w1 = db w \<and>
         (jobs (job_queue w1) i = None) = (jobs (job_queue w) i = None)"
  using assms
  by (auto simp: task_body_def Let_def new_session_def commit_one_result
      split: prod.splits sum.splits option.splits)

lemma task_body_returns:
  assumes "experiments (db w) k = Some ex" "results (db w) k = None"
    and "task_body env k ps t w = (Inr u, s, w1)"
  shows "\<exists>model sim opt ms n n'.
           simulate \<lparr>O_F_ratio = O_F_ratio ps, pressure = pressure ps,
                     temp = temp ps, isp = isp ps\<rparr> model = Inr sim \<and>
           requested_optimization env ps model n = (Inr opt, n') \<and>
           results (db w1) = (results (db w))(k \<mapsto>
             \<lparr>result_status = ''completed'',
              data = Some \<lparr>simulation = sim, optimization = opt, model_metrics = ms\<rparr>,
              error_message = None, completed_at = Some t\<rparr>) \<and>
           experiments (db w1) = (experiments (db w))(k \<mapsto> ex\<lparr>experiment_status := ''completed''\<rparr>)"
  using assms
  by (auto simp: task_body_def Let_def new_session_def commit_one_result
      split: prod.splits sum.splits option.splits) blast

text \<open>
  \<^verbatim>\<open>run_experiment\<close>, when it returns, has written the experiment row of the identifier and
  registered its job, and has left the results as they were: a task started by it finds its
  experiment row.
\<close>

lemma run_experiment_rows:
  assumes "fst (run_experiment ps k t_exp t_job w) = Inr r"
  shows "experiments (db (snd (run_experiment ps k t_exp t_job w))) k =
           Some \<lparr>experiment_params = ps, experiment_status = ''queued'',
                 experiment_created_at = t_exp\<rparr> \<and>
         results (db (snd (run_experiment ps k t_exp t_job w))) = results (db w) \<and>
         jobs (job_queue (snd (run_experiment ps k t_exp t_job w))) k \<noteq> None"
  using assms
  by (auto simp: run_experiment_def commit_def conflicts_def new_session_def insert_rows_def
      write_status_def enqueue_job_eq Let_def split: if_splits)

text \<open>
  Outside that precondition, and for an exception that \<^verbatim>\<open>except Exception\<close> does not catch,
  the task raises and writes no row: without the experiment row the assignment to
  \<^verbatim>\<open>experiment.status\<close> raises in the \<^verbatim>\<open>try\<close> block and again in the handler, before the
  commit.
\<close>

lemma task_body_without_experiment:
  assumes "experiments (db w) k = None" and "task_body env k ps t w = (r, s, w1)"
  shows "(\<exists>e. r = Inl e) \<and> db w1 = db w"
  using assms
  by (auto simp: task_body_def Let_def split: prod.splits sum.splits option.splits)

lemma task_without_experiment:
  assumes "experiments (db w) k = None"
  shows "(\<exists>e. fst (run_experiment_task env k ps t_done t_failed w) = Raised e) \<and>
         db (snd (run_experiment_task env k ps t_done t_failed w)) = db w"
proof -
  obtain r s w1 where b: "task_body env k ps t_done w = (r, s, w1)"
    by (metis prod.collapse)
  from task_body_without_experiment [OF assms b] obtain e where
    e: "r = Inl e" and d: "db w1 = db w" by auto
  from b e d assms show ?thesis
    by (cases e) (simp_all add: run_experiment_task_def Let_def)
qed

lemma task_escapes:
  assumes "task_body env k ps t_done w = (Inl (BaseException e), s, w1)"
  shows "run_experiment_task env k ps t_done t_failed w = (Raised (BaseException e), w1)"
  using assms by (simp add: run_experiment_task_def)

text \<open>
  Claim C5. For a task whose experiment row exists and whose job has no result row yet (as
  \<^verbatim>\<open>run_experiment\<close> leaves them for a fresh identifier): if the \<^verbatim>\<open>try\<close> block runs to its
  end, exactly the row of this job is added to the results, with status \<^verbatim>\<open>completed\<close> and
  a payload holding the simulation and, when \<^verbatim>\<open>alpha\<close> is given, the optimization; if a
  fault (an exception that \<^verbatim>\<open>except Exception\<close> catches) is raised anywhere in the block,
  also after the simulation returned, exactly the row of this job is added, with status
  \<^verbatim>\<open>failed\<close>, the text of the exception and no payload. In both cases the task returns.
\<close>

theorem task_all_or_nothing:
  assumes "experiments (db w) k = Some ex" and "results (db w) k = None"
  shows "(\<forall>s w1. task_body env k ps t_done w = (Inr (), s, w1) \<longrightarrow>
            run_experiment_task env k ps t_done t_failed w = (Returned, w1) \<and>
            (\<exists>model sim opt ms n n'.
               simulate \<lparr>O_F_ratio = O_F_ratio ps, pressure = pressure ps,
                         temp = temp ps, isp = isp ps\<rparr> model = Inr sim \<and>
               requested_optimization env ps model n = (Inr opt, n') \<and>
               (alpha ps \<noteq> None \<longrightarrow> opt \<noteq> None) \<and>
               results (db w1) = (results (db w))(k \<mapsto>
                 \<lparr>result_status = ''completed'',
                  data = Some \<lparr>simulation = sim, optimization = opt, model_metrics = ms\<rparr>,
                  error_message = None, completed_at = Some t_done\<rparr>))) \<and>
         (\<forall>e s w1. task_body env k ps t_done w = (Inl (Exception e), s, w1) \<longrightarrow>
            (\<exists>w2. run_experiment_task env k ps t_done t_failed w = (Returned, w2) \<and>
               results (db w2) = (results (db w))(k \<mapsto>
                 \<lparr>result_status = ''failed'', data = None,
                  error_message = Some e, completed_at = Some t_failed\<rparr>)))"
proof (intro conjI allI impI)
  fix s w1
  assume b: "task_body env k ps t_done w = (Inr (), s, w1)"
  then show "run_experiment_task env k ps t_done t_failed w = (Returned, w1)"
    by (simp add: run_experiment_task_def)
  from task_body_returns [OF assms b]
  obtain model sim opt ms n n' where r:
    "simulate \<lparr>O_F_ratio = O_F_ratio ps, pressure = pressure ps,
               temp = temp ps, isp = isp ps\<rparr> model = Inr sim"
    "requested_optimization env ps model n = (Inr opt, n')"
    "results (db w1) = (results (db w))(k \<mapsto>
       \<lparr>result_status = ''completed'',
        data = Some \<lparr>simulation = sim, optimization = opt, model_metrics = ms\<rparr>,
        error_message = None, completed_at = Some t_done\<rparr>)"
    by blast
  from r(2) have "alpha ps \<noteq> None \<longrightarrow> opt \<noteq> None"
    by (auto simp: requested_optimization_def split: option.splits prod.splits sum.splits)
  with r show "\<exists>model sim opt ms n n'.
      simulate \<lparr>O_F_ratio = O_F_ratio ps, pressure = pressure ps,
                temp = temp ps, isp = isp ps\<rparr> model = Inr sim \<and>
      requested_optimization env ps model n = (Inr opt, n') \<and>
      (alpha ps \<noteq> None \<longrightarrow> opt \<noteq> None) \<and>
      results (db w1) = (results (db w))(k \<mapsto>
        \<lparr>result_status = ''completed'',
         data = Some \<lparr>simulation = sim, optimization = opt, model_metrics = ms\<rparr>,
         error_message = None, completed_at = Some t_done\<rparr>)"
    by blast
next
  fix e s w1
  assume b: "task_body env k ps t_done w = (Inl (Exception e), s, w1)"
  from task_body_raises [OF assms b] have s: "s = new_session" and d: "db w1 = db w"
    by simp_all
  from assms d have c: "commit \<lparr>new_experiments = [],
       new_results = [(k, \<lparr>result_status = ''failed'', data = None,
                           error_message = Some e, completed_at = Some t_failed\<rparr>)],
       status_writes = [(k, ''failed'')]\<rparr> (db w1) =
     Inr \<lparr>experiments = (experiments (db w))(k \<mapsto> ex\<lparr>experiment_status := ''failed''\<rparr>),
          results = (results (db w))(k \<mapsto>
            \<lparr>result_status = ''failed'', data = None,
             error_message = Some e, completed_at = Some t_failed\<rparr>)\<rparr>"
    by (simp add: commit_one_result)
  from b s d assms c
  show "\<exists>w2. run_experiment_task env k ps t_done t_failed w = (Returned, w2) \<and>
          results (db w2) = (results (db w))(k \<mapsto>
            \<lparr>result_status = ''failed'', data = None,
             error_message = Some e, completed_at = Some t_failed\<rparr>)"
    by (simp add: run_experiment_task_def Let_def new_session_def)
qed

lemma submitted_world_eq:
  "submitted_world =
     \<lparr>job_queue =
        \<lparr>jobs = [''id-1'' \<mapsto> \<lparr>status = ''running'', progress = 0, message = ''Job queued'',
                                created_at = 0, future = Some 0\<rparr>],
         futures = (\<lambda>_. None), next_future = 1, is_shutdown = False\<rparr>,
      db = \<lparr>experiments = [''id-1'' \<mapsto> \<lparr>experiment_params = example_params,
                                          experiment_status = ''queued'',
                                          experiment_created_at = 0\<rparr>],
            results = Map.empty\<rparr>,
      model_cache = None,
      solver_calls = 0\<rparr>"
  by (simp add: submitted_world_def run_experiment_def commit_def conflicts_def
      new_session_def initial_world_def insert_rows_def write_status_def enqueue_job_eq
      new_queue_def fun_upd_def)

lemmas task_eval =
  task_body_def run_experiment_task_def set_status_def update_job_status_def
  get_or_train_model_def simulate_def requested_optimization_def optimize_fuel_mixture_def
  guess_minimizer_def fuel_problem_def objective_def feasible_def within_bounds_def
  satisfies_def temp_constraint_def commit_def conflicts_def insert_rows_def
  write_status_def new_session_def working_env_def brittle_env_def thrust_model_def
  brittle_model_def example_params_def example_metrics_def Let_def

lemma brittle_body:
  "fst (task_body brittle_env ''id-1'' example_params 7 submitted_world) =
     Inl (Exception ''inference error'')"
  by (simp add: submitted_world_eq task_eval)

lemma working_body:
  "fst (task_body working_env ''id-1'' example_params 7 submitted_world) = Inr ()"
  by (simp add: submitted_world_eq task_eval)

text \<open>
  The accepted request of the examples: with the model that raises at impulse 300 the
  simulation returns and the optimization raises, and the only result row is the failed one,
  without a payload; with the thrust model the row holds both payloads.
\<close>

theorem task_all_or_nothing_witness:
  "experiments (db submitted_world) ''id-1'' =
     Some \<lparr>experiment_params = example_params, experiment_status = ''queued'',
           experiment_created_at = 0\<rparr> \<and>
   results (db submitted_world) ''id-1'' = None \<and>
   fst (task_body brittle_env ''id-1'' example_params 7 submitted_world) =
     Inl (Exception ''inference error'') \<and>
   fst (run_experiment_task brittle_env ''id-1'' example_params 7 8 submitted_world) = Returned \<and>
   results (db (snd (run_experiment_task brittle_env ''id-1'' example_params 7 8
                       submitted_world))) =
     [''id-1'' \<mapsto> \<lparr>result_status = ''failed'', data = None,
                     error_message = Some ''inference error'', completed_at = Some 8\<rparr>] \<and>
   fst (task_body working_env ''id-1'' example_params 7 submitted_world) = Inr () \<and>
   fst (run_experiment_task working_env ''id-1'' example_params 7 8 submitted_world) = Returned \<and>
   results (db (snd (run_experiment_task working_env ''id-1'' example_params 7 8
                       submitted_world))) ''id-1'' =
     Some \<lparr>result_status = ''completed'',
           data = Some
             \<lparr>simulation =
                \<lparr>thrust = 1226.25, efficiency = 0.981, temperature_ratio = 1,
                 params = \<lparr>O_F_ratio = 3.5, pressure = 5, temp = 3000, isp = 250\<rparr>\<rparr>,
              optimization = Some
                \<lparr>success = True,
                 optimal_params = Some \<lparr>O_F_ratio = 3.5, pressure = 5, temp = 3000, isp = 300\<rparr>,
                 predicted_thrust = Some 1471.5,
                 optimization_value = Some 764.25,
                 error = None\<rparr>,
              model_metrics = example_metrics\<rparr>,
           error_message = None, completed_at = Some 7\<rparr>"
proof -
  have h1: "experiments (db submitted_world) ''id-1'' =
     Some \<lparr>experiment_params = example_params, experiment_status = ''queued'',
           experiment_created_at = 0\<rparr>"
    by (simp add: submitted_world_eq)
  have h2: "results (db submitted_world) ''id-1'' = None"
    by (simp add: submitted_world_eq)
  have r: "results (db submitted_world) = Map.empty"
    by (simp add: submitted_world_eq)
  note t = task_all_or_nothing [OF h1 h2]
  have b: "task_body brittle_env ''id-1'' example_params 7 submitted_world =
      (Inl (Exception ''inference error''),
       fst (snd (task_body brittle_env ''id-1'' example_params 7 submitted_world)),
       snd (snd (task_body brittle_env ''id-1'' example_params 7 submitted_world)))"
    using brittle_body by (metis prod.collapse)
  from t [of brittle_env example_params 7 8] b r
  have fail: "fst (run_experiment_task brittle_env ''id-1'' example_params 7 8 submitted_world) =
        Returned \<and>
      results (db (snd (run_experiment_task brittle_env ''id-1'' example_params 7 8
                          submitted_world))) =
        [''id-1'' \<mapsto> \<lparr>result_status = ''failed'', data = None,
                        error_message = Some ''inference error'', completed_at = Some 8\<rparr>]"
    by fastforce
  have g: "task_body working_env ''id-1'' example_params 7 submitted_world =
      (Inr (),
       fst (snd (task_body working_env ''id-1'' example_params 7 submitted_world)),
       snd (snd (task_body working_env ''id-1'' example_params 7 submitted_world)))"
    using working_body by (metis prod.collapse)
  from t [of working_env example_params 7 8] g
  have ok: "fst (run_experiment_task working_env ''id-1'' example_params 7 8 submitted_world) =
        Returned"
    by fastforce
  have payload: "results (db (snd (run_experiment_task working_env ''id-1'' example_params 7 8
                       submitted_world))) ''id-1'' =
     Some \<lparr>result_status = ''completed'',
           data = Some
             \<lparr>simulation =
                \<lparr>thrust = 1226.25, efficiency = 0.981, temperature_ratio = 1,
                 params = \<lparr>O_F_ratio = 3.5, pressure = 5, temp = 3000, isp = 250\<rparr>\<rparr>,
              optimization = Some
                \<lparr>success = True,
                 optimal_params = Some \<lparr>O_F_ratio = 3.5, pressure = 5, temp = 3000, isp = 300\<rparr>,
                 predicted_thrust = Some 1471.5,
                 optimization_value = Some 764.25,
                 error = None\<rparr>,
              model_metrics = example_metrics\<rparr>,
           error_message = None, completed_at = Some 7\<rparr>"
    by (simp add: submitted_world_eq task_eval)
  from h1 h2 brittle_body fail working_body ok payload show ?thesis by simp
qed

text \<open>
  Claim C10. A poll that resolves a done future whose callable raised stores and returns
  progress 0.0, whatever progress an update had stored before; and a task whose body raised
  leaves the record of its job with status \<^verbatim>\<open>failed\<close>, progress 0.0 and the message
  \<^verbatim>\<open>Experiment failed: \<close> followed by the text of the exception.
\<close>

theorem failure_resets_progress:
  "(jobs q i = Some j \<and> future j = Some h \<and> futures q h = Some (Raised (Exception e)) \<and>
    st \<notin> {''completed'', ''failed''} \<longrightarrow>
      get_job_status i (update_job_status i st p m q) =
        (Inr \<lparr>status = ''failed'', progress = 0, message = ''Job failed: '' @ e\<rparr>,
         q\<lparr>jobs := (jobs q)(i \<mapsto>
              j\<lparr>status := ''failed'', progress := 0, message := ''Job failed: '' @ e\<rparr>)\<rparr>)) \<and>
   (jobs (job_queue w) k = Some j0 \<and> experiments (db w) k = Some ex \<and>
    results (db w) k = None \<and>
    task_body env k ps t_done w = (Inl (Exception e'), s, w1) \<longrightarrow>
      (\<exists>j'. jobs (job_queue (snd (run_experiment_task env k ps t_done t_failed w))) k =
               Some j' \<and>
            status j' = ''failed'' \<and> progress j' = 0 \<and>
            message j' = ''Experiment failed: '' @ e'))"
proof (intro conjI impI)
  assume "jobs q i = Some j \<and> future j = Some h \<and>
    futures q h = Some (Raised (Exception e)) \<and> st \<notin> {''completed'', ''failed''}"
  then show "get_job_status i (update_job_status i st p m q) =
        (Inr \<lparr>status = ''failed'', progress = 0, message = ''Job failed: '' @ e\<rparr>,
         q\<lparr>jobs := (jobs q)(i \<mapsto>
              j\<lparr>status := ''failed'', progress := 0, message := ''Job failed: '' @ e\<rparr>)\<rparr>)"
    by (auto simp: get_job_status_def update_job_status_def resolve_def reply_def)
next
  assume a: "jobs (job_queue w) k = Some j0 \<and> experiments (db w) k = Some ex \<and>
    results (db w) k = None \<and>
    task_body env k ps t_done w = (Inl (Exception e'), s, w1)"
  then have b: "task_body env k ps t_done w = (Inl (Exception e'), s, w1)"
    and x: "experiments (db w) k = Some ex" and r: "results (db w) k = None"
    by simp_all
  from task_body_raises [OF x r b, of k] a
  have s: "s = new_session" and d: "db w1 = db w" and "jobs (job_queue w1) k \<noteq> None"
    by auto
  then obtain j1 where j1: "jobs (job_queue w1) k = Some j1" by auto
  from x r d have c: "commit \<lparr>new_experiments = [],
       new_results = [(k, \<lparr>result_status = ''failed'', data = None,
                           error_message = Some e', completed_at = Some t_failed\<rparr>)],
       status_writes = [(k, ''failed'')]\<rparr> (db w1) =
     Inr \<lparr>experiments = (experiments (db w))(k \<mapsto> ex\<lparr>experiment_status := ''failed''\<rparr>),
          results = (results (db w))(k \<mapsto>
            \<lparr>result_status = ''failed'', data = None,
             error_message = Some e', completed_at = Some t_failed\<rparr>)\<rparr>"
    by (simp add: commit_one_result)
  from b s d x c j1
  have "jobs (job_queue (snd (run_experiment_task env k ps t_done t_failed w))) k =
          Some (j1\<lparr>status := ''failed'', progress := 0,
                   message := ''Experiment failed: '' @ e'\<rparr>)"
    by (simp add: run_experiment_task_def Let_def new_session_def jobs_set_status_known)
  then show "\<exists>j'. jobs (job_queue (snd (run_experiment_task env k ps t_done t_failed w))) k =
               Some j' \<and>
            status j' = ''failed'' \<and> progress j' = 0 \<and>
            message j' = ''Experiment failed: '' @ e'"
    by simp
qed

text \<open>
  A job that had reported progress 0.6 when its future raised, and the task of the examples
  whose optimization raises after it had reported progress 0.6.
\<close>

theorem failure_resets_progress_witness:
  "jobs (run [Register 0 ''j'', Submit, Attach ''j'' 0, Finish 0 (Raised (Exception ''boom''))] new_queue) ''j'' =
     Some \<lparr>status = ''running'', progress = 0, message = ''Job queued'',
           created_at = 0, future = Some 0\<rparr> \<and>
   futures (run [Register 0 ''j'', Submit, Attach ''j'' 0, Finish 0 (Raised (Exception ''boom''))] new_queue) 0 =
     Some (Raised (Exception ''boom'')) \<and>
   ''running'' \<notin> {''completed'', ''failed''} \<and>
   fst (get_job_status ''j''
         (update_job_status ''j'' ''running'' 0.6 ''Simulation completed''
           (run [Register 0 ''j'', Submit, Attach ''j'' 0, Finish 0 (Raised (Exception ''boom''))] new_queue))) =
     Inr \<lparr>status = ''failed'', progress = 0, message = ''Job failed: boom''\<rparr> \<and>
   jobs (job_queue submitted_world) ''id-1'' =
     Some \<lparr>status = ''running'', progress = 0, message = ''Job queued'',
           created_at = 0, future = Some 0\<rparr> \<and>
   experiments (db submitted_world) ''id-1'' =
     Some \<lparr>experiment_params = example_params, experiment_status = ''queued'',
           experiment_created_at = 0\<rparr> \<and>
   results (db submitted_world) ''id-1'' = None \<and>
   fst (task_body brittle_env ''id-1'' example_params 7 submitted_world) =
     Inl (Exception ''inference error'') \<and>
   (\<exists>j'. jobs (job_queue (snd (run_experiment_task brittle_env ''id-1'' example_params 7 8
                                  submitted_world))) ''id-1'' = Some j' \<and>
         status j' = ''failed'' \<and> progress j' = 0 \<and>
         message j' = ''Experiment failed: inference error'')"
proof -
  have a1: "jobs (run [Register 0 ''j'', Submit, Attach ''j'' 0, Finish 0 (Raised (Exception ''boom''))] new_queue) ''j'' =
     Some \<lparr>status = ''running'', progress = 0, message = ''Job queued'',
           created_at = 0, future = Some 0\<rparr>"
    by (simp add: queue_eval)
  have a2: "futures (run [Register 0 ''j'', Submit, Attach ''j'' 0, Finish 0 (Raised (Exception ''boom''))] new_queue) 0 =
     Some (Raised (Exception ''boom''))"
    by (simp add: queue_eval)
  have a3: "''running'' \<notin> {''completed'', ''failed''}"
    by simp
  have b1: "jobs (job_queue submitted_world) ''id-1'' =
     Some \<lparr>status = ''running'', progress = 0, message = ''Job queued'',
           created_at = 0, future = Some 0\<rparr>"
    by (simp add: submitted_world_eq)
  have b2: "experiments (db submitted_world) ''id-1'' =
     Some \<lparr>experiment_params = example_params, experiment_status = ''queued'',
           experiment_created_at = 0\<rparr>"
    by (simp add: submitted_world_eq)
  have b3: "results (db submitted_world) ''id-1'' = None"
    by (simp add: submitted_world_eq)
  have b4: "task_body brittle_env ''id-1'' example_params 7 submitted_world =
      (Inl (Exception ''inference error''),
       fst (snd (task_body brittle_env ''id-1'' example_params 7 submitted_world)),
       snd (snd (task_body brittle_env ''id-1'' example_params 7 submitted_world)))"
    using brittle_body by (metis prod.collapse)
  note t = failure_resets_progress
    [of "run [Register 0 ''j'', Submit, Attach ''j'' 0, Finish 0 (Raised (Exception ''boom''))] new_queue" "''j''"
        "\<lparr>status = ''running'', progress = 0, message = ''Job queued'',
          created_at = 0, future = Some 0\<rparr>" 0 "''boom''" "''running''" "0.6"
        "''Simulation completed''" submitted_world "''id-1''"
        "\<lparr>status = ''running'', progress = 0, message = ''Job queued'',
          created_at = 0, future = Some 0\<rparr>"
        "\<lparr>experiment_params = example_params, experiment_status = ''queued'',
          experiment_created_at = 0\<rparr>"
        brittle_env example_params 7 "''inference error''"
        "fst (snd (task_body brittle_env ''id-1'' example_params 7 submitted_world))"
        "snd (snd (task_body brittle_env ''id-1'' example_params 7 submitted_world))" 8]
  from t a1 a2 a3 have p1: "fst (get_job_status ''j''
         (update_job_status ''j'' ''running'' 0.6 ''Simulation completed''
           (run [Register 0 ''j'', Submit, Attach ''j'' 0, Finish 0 (Raised (Exception ''boom''))] new_queue))) =
     Inr \<lparr>status = ''failed'', progress = 0, message = ''Job failed: boom''\<rparr>"
    by simp
  from t b1 b2 b3 b4 have p2:
    "\<exists>j'. jobs (job_queue (snd (run_experiment_task brittle_env ''id-1'' example_params 7 8
                                  submitted_world))) ''id-1'' = Some j' \<and>
         status j' = ''failed'' \<and> progress j' = 0 \<and>
         message j' = ''Experiment failed: inference error''"
    by simp
  from a1 a2 a3 p1 b1 b2 b3 brittle_body p2 show ?thesis by blast
qed

end
